theory Spec2Isabelle
  imports Complex_Main "HOL-Library.AList"
begin

section \<open>BlendIQ soil blending optimizer: a shallow embedding\<close>

text \<open>
  The embedding follows \<^verbatim>\<open>src/netlify/functions/optimizer.py\<close>; the copy in
  \<^verbatim>\<open>src/api/optimize.py\<close> has the same function bodies.

  Numbers are the reals: IEEE rounding, infinities and overflow are outside the model.
  The one float that the program itself tests for, \<^verbatim>\<open>np.nan\<close> as the marker of a
  missing material value, is \<open>None\<close> in a \<open>real option\<close>. A Python value that may be
  \<^verbatim>\<open>None\<close> is a \<open>real option\<close> as well, and a dictionary is a map, or an association
  list where the program iterates over it (Python dictionaries keep insertion order;
  \<open>AList.update\<close> replaces in place or appends, as an assignment \<^verbatim>\<open>d[k] = v\<close> does).
  Exceptions are values of \<open>py_error\<close> on the left of a sum.
\<close>

subsection \<open>Data model\<close>

datatype py_error = ValueError | TypeError | IndexError

text \<open>A limits dictionary has the keys \<^verbatim>\<open>'lower'\<close> and \<^verbatim>\<open>'upper'\<close>; a key may be absent, or
  present with the value \<^verbatim>\<open>None\<close> (\<open>Some None\<close>).\<close>

type_synonym limit_dict = "string \<rightharpoonup> real option"

record material =
  mat_id :: string
  mat_name :: string
  availableTonnage :: "real option"
  parameters :: "string \<rightharpoonup> real option"

record material_constraint =
  materialId :: string
  minPercentage :: "real option"
  maxPercentage :: "real option"

record config =
  selectedParameters :: "string list"
  customLimits :: "string \<rightharpoonup> limit_dict"
  materialConstraints :: "material_constraint list"
  tolerance :: "real option"
  autoRelax :: "bool option"

text \<open>\<^verbatim>\<open>d.get(k, default)\<close>: the default is returned only when the key is absent.\<close>

definition dict_get :: "('k \<rightharpoonup> 'v) \<Rightarrow> 'k \<Rightarrow> 'v \<Rightarrow> 'v" where
  "dict_get d k dflt = (case d k of None \<Rightarrow> dflt | Some v \<Rightarrow> v)"

text \<open>\<^verbatim>\<open>config.get('tolerance', 30)\<close> and \<^verbatim>\<open>config.get('autoRelax', True)\<close>.\<close>

definition get_tolerance :: "config \<Rightarrow> real" where
  "get_tolerance cfg = (case tolerance cfg of None \<Rightarrow> 30 | Some t \<Rightarrow> t)"

definition get_autoRelax :: "config \<Rightarrow> bool" where
  "get_autoRelax cfg = (case autoRelax cfg of None \<Rightarrow> True | Some b \<Rightarrow> b)"

subsection \<open>Parameter extractor\<close>

text \<open>\<^verbatim>\<open>extract_material_parameters\<close> (lines 146-161). The entry \<open>parameters m p\<close> is the
  \<^verbatim>\<open>'value'\<close> of the material's record for \<open>p\<close>; an absent record, an absent value and a
  null value all become the missing marker.\<close>

definition extract_material_parameters ::
  "material list \<Rightarrow> config \<Rightarrow> (string \<times> real option list) list" where
  "extract_material_parameters materials cfg =
     fold (\<lambda>param_name material_params.
             AList.update param_name
               (map (\<lambda>m. dict_get (parameters m) param_name None) materials)
               material_params)
          (selectedParameters cfg) []"

subsection \<open>Target and limit resolver\<close>

definition bs3882_limits :: "string \<rightharpoonup> limit_dict" where
  "bs3882_limits = map_of
     [(''pH'', [''lower'' \<mapsto> Some 5.5, ''upper'' \<mapsto> Some 8.5]),
      (''Stone Content (>2mm)'', [''upper'' \<mapsto> Some 8]),
      (''Organic Matter'', [''lower'' \<mapsto> Some 3.5, ''upper'' \<mapsto> Some 10]),
      (''Clay'', [''lower'' \<mapsto> Some 8, ''upper'' \<mapsto> Some 35]),
      (''Silt'', [''lower'' \<mapsto> Some 15, ''upper'' \<mapsto> Some 60]),
      (''Sand'', [''lower'' \<mapsto> Some 30, ''upper'' \<mapsto> Some 60]),
      (''Arsenic'', [''upper'' \<mapsto> Some 20]),
      (''Cadmium'', [''upper'' \<mapsto> Some 3]),
      (''Chromium (Total)'', [''upper'' \<mapsto> Some 100]),
      (''Copper'', [''upper'' \<mapsto> Some 200]),
      (''Lead'', [''upper'' \<mapsto> Some 450]),
      (''Mercury'', [''upper'' \<mapsto> Some 1]),
      (''Nickel'', [''upper'' \<mapsto> Some 75]),
      (''Zinc'', [''upper'' \<mapsto> Some 300])]"

definition zero_seeking :: "string list" where
  "zero_seeking =
     [''Arsenic'', ''Cadmium'', ''Chromium (Total)'', ''Chromium (VI)'',
      ''Lead'', ''Mercury'', ''Selenium'', ''Molybdenum'',
      ''Cyanide (Free)'', ''Cyanide (Total)'', ''TPH (Total Petroleum Hydrocarbons)'',
      ''PAH (Total)'', ''PCBs (Total)'', ''Asbestos'']"

text \<open>Lines 196-202: \<^verbatim>\<open>param_limits\<close> always has both keys; a bound that neither the custom
  nor the default dictionary gives is stored as \<^verbatim>\<open>None\<close>.\<close>

definition resolve_limits :: "config \<Rightarrow> string \<Rightarrow> limit_dict" where
  "resolve_limits cfg param_name =
     (let custom_limits = dict_get (customLimits cfg) param_name Map.empty;
          default_limits = dict_get bs3882_limits param_name Map.empty
      in [''lower'' \<mapsto> dict_get custom_limits ''lower'' (dict_get default_limits ''lower'' None),
          ''upper'' \<mapsto> dict_get custom_limits ''upper'' (dict_get default_limits ''upper'' None)])"

text \<open>Lines 207-216. The first branch is \<^verbatim>\<open>param_limits.get('lower', 0)\<close>; the others test
  \<^verbatim>\<open>param_limits.get(..) is not None\<close> and read \<^verbatim>\<open>param_limits[..]\<close>.\<close>

definition resolve_target :: "string \<Rightarrow> limit_dict \<Rightarrow> real option" where
  "resolve_target param_name param_limits =
     (if param_name \<in> set zero_seeking then dict_get param_limits ''lower'' (Some 0)
      else if dict_get param_limits ''lower'' None \<noteq> None
              \<and> dict_get param_limits ''upper'' None \<noteq> None
        then Some ((the (dict_get param_limits ''lower'' None)
                    + the (dict_get param_limits ''upper'' None)) / 2)
      else if dict_get param_limits ''lower'' None \<noteq> None
        then dict_get param_limits ''lower'' None
      else if dict_get param_limits ''upper'' None \<noteq> None
        then dict_get param_limits ''upper'' None
      else Some 0)"

text \<open>\<^verbatim>\<open>get_targets_and_limits\<close> (lines 164-218): the loop over the keys of
  \<^verbatim>\<open>material_params\<close>, returning \<^verbatim>\<open>(targets, limits)\<close>.\<close>

definition get_targets_and_limits ::
  "(string \<times> real option list) list \<Rightarrow> config
     \<Rightarrow> (string \<times> real option) list \<times> (string \<times> limit_dict) list" where
  "get_targets_and_limits material_params cfg =
     fold (\<lambda>param_name (targets, limits).
             let param_limits = resolve_limits cfg param_name
             in (AList.update param_name (resolve_target param_name param_limits) targets,
                 AList.update param_name param_limits limits))
          (map fst material_params) ([], [])"

subsection \<open>Constraint builder\<close>

text \<open>A constraint is the dictionary \<^verbatim>\<open>{'type': .., 'fun': ..}\<close> handed to the solver; the
  function is the lambda of the source, with \<^verbatim>\<open>idx\<close>, \<^verbatim>\<open>min_val\<close> and \<^verbatim>\<open>max_val\<close> bound
  at the time the constraint is built.\<close>

datatype constraint_type = Eq | Ineq

record constraint =
  con_type :: constraint_type
  con_fun :: "real list \<Rightarrow> real"

text \<open>Line 238: the index of the first material whose id is \<^verbatim>\<open>material_id\<close>.\<close>

definition find_material_index :: "material list \<Rightarrow> string \<Rightarrow> nat option" where
  "find_material_index materials material_id =
     map_option fst (List.find (\<lambda>(i, m). mat_id m = material_id) (List.enumerate 0 materials))"

text \<open>\<^verbatim>\<open>setup_constraints\<close> (lines 221-253).\<close>

definition setup_constraints :: "material list \<Rightarrow> config \<Rightarrow> nat \<Rightarrow> constraint list" where
  "setup_constraints materials cfg n_materials =
     fold (\<lambda>c constraints.
             let material_id = materialId c;
                 min_pct = minPercentage c;
                 max_pct = maxPercentage c
             in case find_material_index materials material_id of
                  None \<Rightarrow> constraints
                | Some idx \<Rightarrow>
                    (constraints
                      @ (if min_pct \<noteq> None
                         then [\<lparr>con_type = Ineq, con_fun = (\<lambda>x. x ! idx - the min_pct / 100)\<rparr>]
                         else []))
                      @ (if max_pct \<noteq> None
                         then [\<lparr>con_type = Ineq, con_fun = (\<lambda>x. the max_pct / 100 - x ! idx)\<rparr>]
                         else []))
          (materialConstraints cfg)
          [\<lparr>con_type = Eq, con_fun = (\<lambda>x. sum_list x - 1)\<rparr>]"

subsection \<open>Blend parameter calculator\<close>

text \<open>The body of the loop of \<^verbatim>\<open>calculate_blend_parameters\<close> (lines 299-312) for one
  parameter. \<open>Inr None\<close> is an iteration that stores nothing. Indexing \<^verbatim>\<open>ratios\<close> with a
  boolean mask of another length raises in numpy.\<close>

definition blend_value :: "real list \<Rightarrow> real option list \<Rightarrow> py_error + real option" where
  "blend_value ratios vals =
     (if \<not> list_ex (\<lambda>v. v \<noteq> None) vals then Inr None
      else if length ratios \<noteq> length vals then Inl IndexError
      else
        let valid_ratios = [r. (r, Some v) \<leftarrow> zip ratios vals];
            valid_values = [v. Some v \<leftarrow> vals]
        in if sum_list valid_ratios > 0
           then let normalized_ratios = map (\<lambda>r. r / sum_list valid_ratios) valid_ratios
                in Inr (Some (sum_list (map2 (*) normalized_ratios valid_values)))
           else Inr None)"

fun blend_loop ::
  "real list \<Rightarrow> (string \<times> real option list) list \<Rightarrow> (string \<times> real) list
     \<Rightarrow> py_error + (string \<times> real) list" where
  "blend_loop ratios [] blend_params = Inr blend_params"
| "blend_loop ratios ((param_name, vals) # rest) blend_params =
     (case blend_value ratios vals of
        Inl e \<Rightarrow> Inl e
      | Inr None \<Rightarrow> blend_loop ratios rest blend_params
      | Inr (Some b) \<Rightarrow> blend_loop ratios rest (AList.update param_name b blend_params))"

definition calculate_blend_parameters ::
  "real list \<Rightarrow> (string \<times> real option list) list \<Rightarrow> py_error + (string \<times> real) list" where
  "calculate_blend_parameters ratios material_params = blend_loop ratios material_params []"

subsection \<open>Objective function\<close>

text \<open>The residual of lines 278-283. A target that is \<^verbatim>\<open>None\<close> makes each of the three
  expressions raise (a float minus or divided by \<^verbatim>\<open>None\<close>).\<close>

definition objective_residual ::
  "real \<Rightarrow> real option \<Rightarrow> real option \<Rightarrow> real option \<Rightarrow> py_error + real" where
  "objective_residual blend_val target_value lower upper =
     (case target_value of
        None \<Rightarrow> Inl TypeError
      | Some t \<Rightarrow>
          if lower \<noteq> None \<and> blend_val < the lower
            then Inr ((the lower - blend_val) / (if t \<noteq> 0 then t else 1))
          else if upper \<noteq> None \<and> blend_val > the upper
            then Inr ((blend_val - the upper) / (if t \<noteq> 0 then t else 1))
          else Inr ((blend_val - t) / (if t \<noteq> 0 then t else 1)))"

text \<open>The loop over \<^verbatim>\<open>targets.items()\<close> (lines 267-289), \<open>total_error\<close> threaded through.
  A parameter without a blend value is skipped; the test \<^verbatim>\<open>np.isnan(blend_value)\<close> of line 270
  has no counterpart, a blend value of the model being a real.\<close>

fun objective_loop ::
  "(string \<times> real) list \<Rightarrow> (string \<times> limit_dict) list \<Rightarrow> real
     \<Rightarrow> (string \<times> real option) list \<Rightarrow> real \<Rightarrow> py_error + real" where
  "objective_loop blend_params limits tol [] total_error = Inr total_error"
| "objective_loop blend_params limits tol ((param_name, target_value) # rest) total_error =
     (case map_of blend_params param_name of
        None \<Rightarrow> objective_loop blend_params limits tol rest total_error
      | Some blend_val \<Rightarrow>
          let param_limits = dict_get (map_of limits) param_name Map.empty;
              lower = dict_get param_limits ''lower'' None;
              upper = dict_get param_limits ''upper'' None
          in (case objective_residual blend_val target_value lower upper of
                Inl e \<Rightarrow> Inl e
              | Inr r \<Rightarrow>
                  (if \<bar>r\<bar> > tol
                   then objective_loop blend_params limits tol rest (total_error + r\<^sup>2 * 10)
                   else objective_loop blend_params limits tol rest (total_error + r\<^sup>2))))"

text \<open>\<^verbatim>\<open>calculate_objective\<close> (lines 256-291).\<close>

definition calculate_objective ::
  "real list \<Rightarrow> (string \<times> real option list) list \<Rightarrow> (string \<times> real option) list
     \<Rightarrow> (string \<times> limit_dict) list \<Rightarrow> config \<Rightarrow> py_error + real" where
  "calculate_objective ratios material_params targets limits cfg =
     (case calculate_blend_parameters ratios material_params of
        Inl e \<Rightarrow> Inl e
      | Inr blend_params \<Rightarrow>
          objective_loop blend_params limits (get_tolerance cfg / 100) targets 0)"

subsection \<open>Residuals\<close>

datatype status = compliant | marginal | exceeding

record residual_entry =
  parameter :: string
  rvalue :: real
  lowerLimit :: "real option"
  upperLimit :: "real option"
  target :: real
  residual :: real
  residualPercent :: real
  status :: status

text \<open>Lines 330-335: the residual of a blend value against the bound it violates, or
  against the target.\<close>

definition residual_value :: "real \<Rightarrow> real \<Rightarrow> real option \<Rightarrow> real option \<Rightarrow> real" where
  "residual_value blend_val t lower upper =
     (if lower \<noteq> None \<and> blend_val < the lower then blend_val - the lower
      else if upper \<noteq> None \<and> blend_val > the upper then blend_val - the upper
      else blend_val - t)"

text \<open>Lines 340-345: the status of a residual percentage; \<open>tol\<close> is
  \<^verbatim>\<open>config.get('tolerance', 30)\<close>, a percentage.\<close>

definition residual_status :: "real \<Rightarrow> real \<Rightarrow> status" where
  "residual_status tol residual_percent =
     (if residual_percent \<le> tol then compliant
      else if residual_percent \<le> tol * 1.5 then marginal
      else exceeding)"

text \<open>The body of the loop of \<^verbatim>\<open>calculate_residuals\<close> (lines 323-356) for one item of
  \<^verbatim>\<open>blend_params\<close>. A target that is \<^verbatim>\<open>None\<close> raises at line 335 or at line 337.\<close>

definition residual_of ::
  "(string \<times> real option) list \<Rightarrow> (string \<times> limit_dict) list \<Rightarrow> real
     \<Rightarrow> string \<Rightarrow> real \<Rightarrow> py_error + residual_entry" where
  "residual_of targets limits tol param_name blend_val =
     (let target_value = dict_get (map_of targets) param_name (Some 0);
          param_limits = dict_get (map_of limits) param_name Map.empty;
          lower = dict_get param_limits ''lower'' None;
          upper = dict_get param_limits ''upper'' None
      in case target_value of
           None \<Rightarrow> Inl TypeError
         | Some t \<Rightarrow>
             let res = residual_value blend_val t lower upper;
                 residual_percent = \<bar>res / (if t \<noteq> 0 then t else 1)\<bar> * 100
             in Inr \<lparr>parameter = param_name, rvalue = blend_val,
                     lowerLimit = lower, upperLimit = upper, target = t,
                     residual = res, residualPercent = residual_percent,
                     status = residual_status tol residual_percent\<rparr>)"

fun residuals_loop ::
  "(string \<times> real option) list \<Rightarrow> (string \<times> limit_dict) list \<Rightarrow> real
     \<Rightarrow> (string \<times> real) list \<Rightarrow> residual_entry list \<Rightarrow> py_error + residual_entry list" where
  "residuals_loop targets limits tol [] acc = Inr acc"
| "residuals_loop targets limits tol ((param_name, blend_val) # rest) acc =
     (case residual_of targets limits tol param_name blend_val of
        Inl e \<Rightarrow> Inl e
      | Inr r \<Rightarrow> residuals_loop targets limits tol rest (acc @ [r]))"

text \<open>\<^verbatim>\<open>list.sort(key=.., reverse=True)\<close> is a stable sort that keeps the original order of
  elements with equal keys: the stable ascending sort of the reversed list, reversed.\<close>

definition sort_desc :: "('a \<Rightarrow> real) \<Rightarrow> 'a list \<Rightarrow> 'a list" where
  "sort_desc key xs = rev (sort_key key (rev xs))"

text \<open>\<^verbatim>\<open>calculate_residuals\<close> (lines 317-361).\<close>

definition calculate_residuals ::
  "(string \<times> real) list \<Rightarrow> (string \<times> real option) list \<Rightarrow> (string \<times> limit_dict) list
     \<Rightarrow> config \<Rightarrow> py_error + residual_entry list" where
  "calculate_residuals blend_params targets limits cfg =
     (case residuals_loop targets limits (get_tolerance cfg) blend_params [] of
        Inl e \<Rightarrow> Inl e
      | Inr rs \<Rightarrow> Inr (sort_desc (\<lambda>r. \<bar>residualPercent r\<bar>) rs))"

subsection \<open>Result builder\<close>

record tonnage_entry =
  materialName :: string
  tonnage_materialId :: string
  available :: real
  used :: real
  remaining :: real
  percentage :: real

record compliance_summary =
  totalParameters :: nat
  compliant_count :: nat
  marginal_count :: nat
  exceeding_count :: nat
  meanResidual :: real
  highestResidual :: real
  lowestResidual :: real

record soil_texture =
  clay :: real
  silt :: real
  sand :: real
  withinAcceptableRange :: bool

text \<open>A warning is one of the four formatted messages of lines 436-451, kept with the values
  that the message interpolates: the count of exceeding parameters, the count of marginal
  ones, the relaxed tolerance, and for the missing data the names listed (at most five) with
  the count of the others (when there are more than five).\<close>

datatype warning =
    ExceedWarning nat
  | MarginalWarning nat
  | RelaxedWarning real
  | MissingWarning "string list" "nat option"

record optimization_details =
  iterations :: nat
  convergence :: bool
  relaxedTolerance :: "real option"
  solver_method :: string

record optimization_result =
  success :: bool
  blendRatios :: "(string \<times> real) list"
  tonnageBreakdown :: "tonnage_entry list"
  compliance :: compliance_summary
  residuals :: "residual_entry list"
  soilTexture :: "soil_texture option"
  warnings :: "warning list"
  optimizationDetails :: optimization_details

text \<open>Lines 409-432.\<close>

definition soil_texture_of :: "(string \<times> real) list \<Rightarrow> soil_texture option" where
  "soil_texture_of blend_params =
     (if map_of blend_params ''Clay'' \<noteq> None \<and> map_of blend_params ''Silt'' \<noteq> None
         \<and> map_of blend_params ''Sand'' \<noteq> None
      then
        let c = the (map_of blend_params ''Clay'');
            s = the (map_of blend_params ''Silt'');
            d = the (map_of blend_params ''Sand'');
            total = c + s + d
        in if total > 0
           then
             let clay_pct = (c / total) * 100;
                 silt_pct = (s / total) * 100;
                 sand_pct = (d / total) * 100
             in Some \<lparr>clay = clay_pct, silt = silt_pct, sand = sand_pct,
                       withinAcceptableRange =
                         (8 \<le> clay_pct \<and> clay_pct \<le> 35 \<and> 15 \<le> silt_pct \<and> silt_pct \<le> 60
                          \<and> 30 \<le> sand_pct \<and> sand_pct \<le> 60)\<rparr>
           else None
      else None)"

text \<open>Lines 444-447.\<close>

definition missing_params_of :: "config \<Rightarrow> (string \<times> real) list \<Rightarrow> string list" where
  "missing_params_of cfg blend_params =
     filter (\<lambda>param. map_of blend_params param = None) (selectedParameters cfg)"

text \<open>Lines 435-451.\<close>

definition warnings_of ::
  "nat \<Rightarrow> nat \<Rightarrow> real option \<Rightarrow> string list \<Rightarrow> warning list" where
  "warnings_of n_exceeding n_marginal relaxed_tolerance missing_params =
     (if n_exceeding > 0 then [ExceedWarning n_exceeding] else [])
     @ (if n_marginal > 0 then [MarginalWarning n_marginal] else [])
     @ (if relaxed_tolerance \<noteq> None \<and> the relaxed_tolerance \<noteq> 0
        then [RelaxedWarning (the relaxed_tolerance)] else [])
     @ (if missing_params \<noteq> []
        then [MissingWarning (take 5 missing_params)
                (if length missing_params > 5 then Some (length missing_params - 5) else None)]
        else [])"

text \<open>Lines 390-406.\<close>

definition compliance_of :: "residual_entry list \<Rightarrow> compliance_summary" where
  "compliance_of rs =
     (let pcts = map (\<lambda>r. \<bar>residualPercent r\<bar>) rs
      in \<lparr>totalParameters = length rs,
          compliant_count = length (filter (\<lambda>r. status r = compliant) rs),
          marginal_count = length (filter (\<lambda>r. status r = marginal) rs),
          exceeding_count = length (filter (\<lambda>r. status r = exceeding) rs),
          meanResidual = (if rs \<noteq> [] then sum_list pcts / real (length pcts) else 0),
          highestResidual = (if rs \<noteq> [] then fold max (tl pcts) (hd pcts) else 0),
          lowestResidual = (if rs \<noteq> [] then fold min (tl pcts) (hd pcts) else 0)\<rparr>)"

text \<open>\<^verbatim>\<open>build_result\<close> (lines 364-467). Reading \<^verbatim>\<open>ratios[i]\<close> for every material raises when
  the ratio vector is shorter than the material list.\<close>

definition build_result ::
  "bool \<Rightarrow> real list \<Rightarrow> material list \<Rightarrow> residual_entry list \<Rightarrow> (string \<times> real) list
     \<Rightarrow> nat \<Rightarrow> bool \<Rightarrow> real option \<Rightarrow> config \<Rightarrow> py_error + optimization_result" where
  "build_result succ ratios materials rs blend_params iters conv relaxed_tolerance cfg =
     (if length ratios < length materials then Inl IndexError
      else
        let blend_ratios =
              fold (\<lambda>i d. AList.update (mat_id (materials ! i)) (ratios ! i) d)
                   [0..<length materials] [];
            tonnage_breakdown =
              map (\<lambda>(i, m).
                     let ratio = ratios ! i;
                         avail = (case availableTonnage m of None \<Rightarrow> 0 | Some a \<Rightarrow> a);
                         u = avail * ratio
                     in \<lparr>materialName = mat_name m, tonnage_materialId = mat_id m,
                         available = avail, used = u, remaining = avail - u,
                         percentage = ratio * 100\<rparr>)
                  (List.enumerate 0 materials);
            summary = compliance_of rs;
            missing_params = missing_params_of cfg blend_params
        in Inr \<lparr>success = succ,
                blendRatios = blend_ratios,
                tonnageBreakdown = tonnage_breakdown,
                compliance = summary,
                residuals = rs,
                soilTexture = soil_texture_of blend_params,
                warnings = warnings_of (exceeding_count summary) (marginal_count summary)
                             relaxed_tolerance missing_params,
                optimizationDetails =
                  \<lparr>iterations = iters, convergence = conv,
                   relaxedTolerance = relaxed_tolerance, solver_method = ''SLSQP''\<rparr>\<rparr>)"

subsection \<open>Solver orchestrator\<close>

text \<open>The two SciPy routines are parameters of the model. \<open>minimize\<close> stands for
  \<^verbatim>\<open>minimize(fun, x0, method='SLSQP', bounds=.., constraints=.., options={'maxiter': 1000,
  'ftol': 1e-9})\<close> and \<open>differential_evolution\<close> for \<^verbatim>\<open>differential_evolution(fun, bounds,
  constraints=.., maxiter=1000, seed=42)\<close>; both are deterministic in their arguments. A
  result carries \<^verbatim>\<open>success\<close>, \<^verbatim>\<open>x\<close> and, when it has the attribute, \<^verbatim>\<open>nit\<close>. An exception that
  leaves a routine (one raised by the objective, for instance) is an \<open>Inl\<close>.\<close>

record solver_result =
  res_success :: bool
  res_x :: "real list"
  res_nit :: "nat option"

type_synonym objective = "real list \<Rightarrow> py_error + real"

record solvers =
  minimize ::
    "objective \<Rightarrow> real list \<Rightarrow> (real \<times> real) list \<Rightarrow> constraint list \<Rightarrow> py_error + solver_result"
  differential_evolution ::
    "objective \<Rightarrow> (real \<times> real) list \<Rightarrow> constraint list \<Rightarrow> py_error + solver_result"

text \<open>The history of solver calls, kept beside the program's own variables: each entry
  names the routine and the tolerance (a percentage) of the configuration that the
  objective of that call closes over.\<close>

datatype solver_call = Minimize real | DifferentialEvolution real

text \<open>The \<^verbatim>\<open>for new_tolerance in [0.4, 0.5, 0.6, 0.8, 1.0]\<close> loop (lines 91-109). The state is
  \<^verbatim>\<open>(result, relaxed_tolerance)\<close> with the call history; \<^verbatim>\<open>break\<close> returns at once.\<close>

fun relax_sweep ::
  "solvers \<Rightarrow> (config \<Rightarrow> objective) \<Rightarrow> config \<Rightarrow> real list \<Rightarrow> (real \<times> real) list
     \<Rightarrow> constraint list \<Rightarrow> real list \<Rightarrow> solver_call list \<times> solver_result \<times> real option
     \<Rightarrow> py_error + solver_call list \<times> solver_result \<times> real option" where
  "relax_sweep slv obj cfg x0 bounds constraints [] st = Inr st"
| "relax_sweep slv obj cfg x0 bounds constraints (new_tolerance # rest) (calls, result, relaxed) =
     (let config_copy = cfg\<lparr>tolerance := Some (new_tolerance * 100)\<rparr>
      in case minimize slv (obj config_copy) x0 bounds constraints of
           Inl e \<Rightarrow> Inl e
         | Inr result' \<Rightarrow>
             if res_success result'
             then Inr (calls @ [Minimize (get_tolerance config_copy)], result',
                       Some (new_tolerance * 100))
             else relax_sweep slv obj cfg x0 bounds constraints rest
                    (calls @ [Minimize (get_tolerance config_copy)], result', relaxed))"

text \<open>Lines 78-119 of \<^verbatim>\<open>optimize_blend\<close>: the first solve, the sweep, the global solve.
  \<open>obj c\<close> is \<^verbatim>\<open>calculate_objective\<close> closed over the configuration \<open>c\<close>.\<close>

definition search_stages ::
  "solvers \<Rightarrow> (config \<Rightarrow> objective) \<Rightarrow> config \<Rightarrow> real list \<Rightarrow> (real \<times> real) list
     \<Rightarrow> constraint list \<Rightarrow> py_error + solver_call list \<times> solver_result \<times> real option" where
  "search_stages slv obj cfg x0 bounds constraints =
     (case minimize slv (obj cfg) x0 bounds constraints of
        Inl e \<Rightarrow> Inl e
      | Inr result \<Rightarrow>
          (case (if \<not> res_success result \<and> get_autoRelax cfg
                 then relax_sweep slv obj cfg x0 bounds constraints [0.4, 0.5, 0.6, 0.8, 1.0]
                        ([Minimize (get_tolerance cfg)], result, None)
                 else Inr ([Minimize (get_tolerance cfg)], result, None)) of
             Inl e \<Rightarrow> Inl e
           | Inr (calls, result', relaxed) \<Rightarrow>
               if \<not> res_success result'
               then (case differential_evolution slv (obj cfg) bounds constraints of
                       Inl e \<Rightarrow> Inl e
                     | Inr result'' \<Rightarrow>
                         Inr (calls @ [DifferentialEvolution (get_tolerance cfg)], result'',
                              relaxed))
               else Inr (calls, result', relaxed)))"

text \<open>Line 122: \<^verbatim>\<open>ratios = result.x / np.sum(result.x)\<close>. (On a zero sum numpy yields nan
  and inf entries, which the reals do not have.)\<close>

definition normalize_ratios :: "real list \<Rightarrow> real list" where
  "normalize_ratios xs = map (\<lambda>r. r / sum_list xs) xs"

text \<open>\<^verbatim>\<open>optimize_blend\<close> (lines 39-143). The variable \<^verbatim>\<open>tolerance\<close> of line 75 is never read
  and is left out.\<close>

definition optimize_blend ::
  "solvers \<Rightarrow> material list \<Rightarrow> config \<Rightarrow> py_error + optimization_result" where
  "optimize_blend slv materials cfg =
     (let n_materials = length materials
      in if n_materials < 2 then Inl ValueError
         else
           let material_params = extract_material_parameters materials cfg;
               (targets, limits) = get_targets_and_limits material_params cfg;
               constraints = setup_constraints materials cfg n_materials;
               bounds = replicate n_materials (0, 1);
               x0 = replicate n_materials (1 / real n_materials);
               obj = (\<lambda>c ratios. calculate_objective ratios material_params targets limits c)
           in case search_stages slv obj cfg x0 bounds constraints of
                Inl e \<Rightarrow> Inl e
              | Inr (calls, result, relaxed_tolerance) \<Rightarrow>
                  let ratios = normalize_ratios (res_x result)
                  in (case calculate_blend_parameters ratios material_params of
                        Inl e \<Rightarrow> Inl e
                      | Inr blend_params \<Rightarrow>
                          (case calculate_residuals blend_params targets limits cfg of
                             Inl e \<Rightarrow> Inl e
                           | Inr rs \<Rightarrow>
                               build_result (res_success result) ratios materials rs blend_params
                                 (case res_nit result of None \<Rightarrow> 0 | Some k \<Rightarrow> k)
                                 (res_success result) relaxed_tolerance cfg)))"

subsection \<open>The objective as the specification words it\<close>

text \<open>The specification describes the residual of the objective as
  \<open>(effective_value - reference) / (target if target \<noteq> 0 else 1)\<close>, where the effective value
  is the lower bound if the blend value is below it, the upper bound if it is above it, and
  the blend value otherwise, and the reference is that same bound or, within bounds, the
  target. \<open>spec_residual\<close> and \<open>spec_calculate_objective\<close> follow these words; they are
  compared with \<open>calculate_objective\<close> below.\<close>

definition spec_residual :: "real \<Rightarrow> real \<Rightarrow> real option \<Rightarrow> real option \<Rightarrow> real" where
  "spec_residual blend_val t lower upper =
     (let below = (lower \<noteq> None \<and> blend_val < the lower);
          above = (upper \<noteq> None \<and> blend_val > the upper);
          effective_value = (if below then the lower else if above then the upper else blend_val);
          reference = (if below then the lower else if above then the upper else t)
      in (effective_value - reference) / (if t \<noteq> 0 then t else 1))"

definition spec_calculate_objective ::
  "real list \<Rightarrow> (string \<times> real option list) list \<Rightarrow> (string \<times> real option) list
     \<Rightarrow> (string \<times> limit_dict) list \<Rightarrow> config \<Rightarrow> py_error + real" where
  "spec_calculate_objective ratios material_params targets limits cfg =
     (case calculate_blend_parameters ratios material_params of
        Inl e \<Rightarrow> Inl e
      | Inr blend_params \<Rightarrow>
          Inr (\<Sum>(param_name, target_value)\<leftarrow>targets.
                 case (map_of blend_params param_name, target_value) of
                   (Some blend_val, Some t) \<Rightarrow>
                     let param_limits = dict_get (map_of limits) param_name Map.empty;
                         r = spec_residual blend_val t (dict_get param_limits ''lower'' None)
                               (dict_get param_limits ''upper'' None)
                     in if \<bar>r\<bar> \<le> get_tolerance cfg / 100 then r\<^sup>2 else r\<^sup>2 * 10
                 | _ \<Rightarrow> 0))"

text \<open>The summand of one item of \<^verbatim>\<open>targets\<close> in the program's objective.\<close>

definition objective_term ::
  "(string \<times> real) list \<Rightarrow> (string \<times> limit_dict) list \<Rightarrow> real \<Rightarrow> string \<times> real option \<Rightarrow> real" where
  "objective_term bp limits tol = (\<lambda>(p, t).
     case map_of bp p of
       None \<Rightarrow> 0
     | Some bv \<Rightarrow>
         (case objective_residual bv t (dict_get (dict_get (map_of limits) p Map.empty) ''lower'' None)
                 (dict_get (dict_get (map_of limits) p Map.empty) ''upper'' None) of
            Inl e \<Rightarrow> 0
          | Inr r \<Rightarrow> if \<bar>r\<bar> > tol then r\<^sup>2 * 10 else r\<^sup>2))"

subsection \<open>Example inputs\<close>

text \<open>Two materials that both report Arsenic, and a request that selects it with the
  default limits, tolerance and auto-relax.\<close>

definition arsenic_materials :: "material list" where
  "arsenic_materials =
     [\<lparr>mat_id = ''A'', mat_name = ''Topsoil'', availableTonnage = Some 100,
       parameters = [''Arsenic'' \<mapsto> Some 5]\<rparr>,
      \<lparr>mat_id = ''B'', mat_name = ''Compost'', availableTonnage = Some 50,
       parameters = [''Arsenic'' \<mapsto> Some 10]\<rparr>]"

definition arsenic_config :: config where
  "arsenic_config =
     \<lparr>selectedParameters = [''Arsenic''], customLimits = Map.empty,
      materialConstraints = [], tolerance = None, autoRelax = None\<rparr>"

text \<open>Stand-ins for the two SciPy routines, to run the orchestration on concrete inputs; they
  fix one possible behaviour of the routines and are no model of SciPy. The local routine of
  \<open>probe_solvers\<close> evaluates the objective at the starting point (an exception of the objective
  propagates) and returns the starting point without converging. The local routine of
  \<open>blind_solvers\<close> never calls the objective and reports success at once. The global routine
  of both raises \<^verbatim>\<open>ValueError\<close> when it is handed constraint dictionaries, which are not of
  the constraint classes that \<^verbatim>\<open>differential_evolution\<close> accepts; every list that
  \<^verbatim>\<open>setup_constraints\<close> builds holds at least one.\<close>

definition probe_solvers :: solvers where
  "probe_solvers =
     \<lparr>minimize = (\<lambda>obj x0 bounds constraints.
                    case obj x0 of
                      Inl e \<Rightarrow> Inl e
                    | Inr v \<Rightarrow> Inr \<lparr>res_success = False, res_x = x0, res_nit = Some 1\<rparr>),
      differential_evolution = (\<lambda>obj bounds constraints.
                    case constraints of
                      [] \<Rightarrow> Inr \<lparr>res_success = False,
                                 res_x = replicate (length bounds) (1 / real (length bounds)),
                                 res_nit = Some 1000\<rparr>
                    | c # cs \<Rightarrow> Inl ValueError)\<rparr>"

definition blind_solvers :: solvers where
  "blind_solvers =
     \<lparr>minimize = (\<lambda>obj x0 bounds constraints.
                    Inr \<lparr>res_success = True, res_x = x0, res_nit = Some 1\<rparr>),
      differential_evolution = (\<lambda>obj bounds constraints.
                    case constraints of
                      [] \<Rightarrow> Inr \<lparr>res_success = False,
                                 res_x = replicate (length bounds) (1 / real (length bounds)),
                                 res_nit = Some 1000\<rparr>
                    | c # cs \<Rightarrow> Inl ValueError)\<rparr>"

text \<open>The pH column of two materials, as \<^verbatim>\<open>extract_material_parameters\<close> builds it.\<close>

definition ph_params :: "(string \<times> real option list) list" where
  "ph_params = [(''pH'', [Some 6, Some 9])]"

text \<open>Two materials of which only the first reports Zinc, and a request for pH and Zinc.\<close>

definition material_a :: material where
  "material_a = \<lparr>mat_id = ''A'', mat_name = ''Topsoil'', availableTonnage = Some 100,
                  parameters = [''pH'' \<mapsto> Some 6, ''Zinc'' \<mapsto> Some 120]\<rparr>"

definition material_b :: material where
  "material_b = \<lparr>mat_id = ''B'', mat_name = ''Compost'', availableTonnage = Some 50,
                  parameters = [''pH'' \<mapsto> Some 9]\<rparr>"

definition zinc_config :: config where
  "zinc_config =
     \<lparr>selectedParameters = [''pH'', ''Zinc''], customLimits = Map.empty,
      materialConstraints = [], tolerance = None, autoRelax = None\<rparr>"

text \<open>Blend parameters whose Clay, Silt and Sand are all present: once with the total 0,
  once with the values 8, 15 and 30.\<close>

definition texture_zero_blend :: "(string \<times> real) list" where
  "texture_zero_blend = [(''Clay'', 0), (''Silt'', 0), (''Sand'', 0)]"

definition texture_blend :: "(string \<times> real) list" where
  "texture_blend = [(''Clay'', 8), (''Silt'', 15), (''Sand'', 30)]"

text \<open>Three blend values without limits or targets, whose residual percentages are 30, 46
  and 45.\<close>

definition boundary_blend :: "(string \<times> real) list" where
  "boundary_blend = [(''X'', 3/10), (''Y'', 46/100), (''Z'', 45/100)]"

text \<open>Material constraints for the two materials above, the second of which names an id that
  no material has.\<close>

definition constraint_config :: config where
  "constraint_config =
     \<lparr>selectedParameters = [''pH''], customLimits = Map.empty,
      materialConstraints =
        [\<lparr>materialId = ''A'', minPercentage = Some 80, maxPercentage = None\<rparr>,
         \<lparr>materialId = ''Q'', minPercentage = Some 10, maxPercentage = Some 20\<rparr>,
         \<lparr>materialId = ''B'', minPercentage = None, maxPercentage = Some 20\<rparr>],
      tolerance = None, autoRelax = None\<rparr>"

text \<open>Two materials that are too acid and too poor in organic matter, with the targets and
  limits that \<^verbatim>\<open>get_targets_and_limits\<close> resolves for them.\<close>

definition poor_params :: "(string \<times> real option list) list" where
  "poor_params = [(''pH'', [Some 4, Some 5]), (''Organic Matter'', [Some 1, Some 1])]"

definition poor_config :: config where
  "poor_config =
     \<lparr>selectedParameters = [''pH'', ''Organic Matter''], customLimits = Map.empty,
      materialConstraints = [], tolerance = None, autoRelax = None\<rparr>"

definition poor_targets :: "(string \<times> real option) list" where
  "poor_targets = [(''pH'', Some 7), (''Organic Matter'', Some (27/4))]"

definition poor_limits :: "(string \<times> limit_dict) list" where
  "poor_limits =
     [(''pH'', [''lower'' \<mapsto> Some (11/2), ''upper'' \<mapsto> Some (17/2)]),
      (''Organic Matter'', [''lower'' \<mapsto> Some (7/2), ''upper'' \<mapsto> Some 10])]"

text \<open>A request for six parameters of which the two materials above report only the last,
  Zinc, and only the first material does.\<close>

definition six_config :: config where
  "six_config =
     \<lparr>selectedParameters = [''Boron'', ''Cobalt'', ''Iron'', ''Manganese'', ''Sodium'', ''Zinc''],
      customLimits = Map.empty, materialConstraints = [], tolerance = None, autoRelax = None\<rparr>"

text \<open>A request whose material constraints cannot be met: at least 80 percent and at most
  10 percent of the first material.\<close>

definition infeasible_config :: config where
  "infeasible_config =
     \<lparr>selectedParameters = [''pH''], customLimits = Map.empty,
      materialConstraints =
        [\<lparr>materialId = ''A'', minPercentage = Some 80, maxPercentage = Some 10\<rparr>],
      tolerance = None, autoRelax = None\<rparr>"

section \<open>Verified properties\<close>

subsection \<open>Target and limit resolver\<close>

lemma targets_limits_fold:
  "fold (\<lambda>param_name (targets, limits).
             let param_limits = resolve_limits cfg param_name
             in (AList.update param_name (resolve_target param_name param_limits) targets,
                 AList.update param_name param_limits limits)) ps (ts, ls) = (ts', ls')
   \<Longrightarrow> map_of ts' p =
         (if p \<in> set ps then Some (resolve_target p (resolve_limits cfg p)) else map_of ts p)
     \<and> map_of ls' p = (if p \<in> set ps then Some (resolve_limits cfg p) else map_of ls p)"
proof (induction ps arbitrary: ts ls)
  case Nil
  then show ?case by simp
next
  case (Cons a ps)
  from Cons.prems
    Cons.IH[of "AList.update a (resolve_target a (resolve_limits cfg a)) ts"
               "AList.update a (resolve_limits cfg a) ls"]
  show ?case
    by (simp add: Let_def update_conv')
qed

lemma targets_lookup:
  "p \<in> fst ` set material_params \<Longrightarrow>
   map_of (fst (get_targets_and_limits material_params cfg)) p
     = Some (resolve_target p (resolve_limits cfg p))"
  using targets_limits_fold[of cfg "map fst material_params" "[]" "[]"
     "fst (get_targets_and_limits material_params cfg)"
     "snd (get_targets_and_limits material_params cfg)" p]
  by (simp add: get_targets_and_limits_def)

lemma limits_lookup:
  "p \<in> fst ` set material_params \<Longrightarrow>
   map_of (snd (get_targets_and_limits material_params cfg)) p = Some (resolve_limits cfg p)"
  using targets_limits_fold[of cfg "map fst material_params" "[]" "[]"
     "fst (get_targets_and_limits material_params cfg)"
     "snd (get_targets_and_limits material_params cfg)" p]
  by (simp add: get_targets_and_limits_def)

lemma resolve_limits_lower_key: "resolve_limits cfg p ''lower'' \<noteq> None"
  by (simp add: resolve_limits_def Let_def)

lemma zero_seeking_target:
  "p \<in> set zero_seeking \<Longrightarrow>
   resolve_target p (resolve_limits cfg p) = dict_get (resolve_limits cfg p) ''lower'' None"
  using resolve_limits_lower_key[of cfg p]
  by (auto simp: resolve_target_def dict_get_def split: option.splits)

text \<open>
  Claim C1 says that a selected zero-seeking parameter whose resolved limits have no lower
  bound gets the target 0. The program does not do that: \<^verbatim>\<open>param_limits\<close> always holds the
  key \<^verbatim>\<open>'lower'\<close>, so \<^verbatim>\<open>param_limits.get('lower', 0)\<close> never falls back to 0, and the target
  of such a parameter is \<^verbatim>\<open>None\<close>.
\<close>

theorem zero_seeking_without_lower_target_None:
  assumes "p \<in> set zero_seeking"
    and "p \<in> fst ` set material_params"
    and "dict_get (resolve_limits cfg p) ''lower'' None = None"
  shows "map_of (fst (get_targets_and_limits material_params cfg)) p = Some None"
  using assms by (simp add: targets_lookup zero_seeking_target)

theorem zero_seeking_without_lower_target_None_witness:
  "map_of (fst (get_targets_and_limits [(''Arsenic'', [Some 5, Some 10])] arsenic_config))
     ''Arsenic'' = Some None
   \<and> map_of (fst (get_targets_and_limits [(''Arsenic'', [Some 5, Some 10])] arsenic_config))
       ''Arsenic'' \<noteq> Some (Some 0)"
proof -
  have a: "''Arsenic'' \<in> set zero_seeking"
    by (simp add: zero_seeking_def)
  have b: "''Arsenic'' \<in> fst ` set [(''Arsenic'', [Some (5::real), Some 10])]"
    by simp
  have c: "dict_get (resolve_limits arsenic_config ''Arsenic'') ''lower'' None = None"
    by (simp add: arsenic_config_def resolve_limits_def dict_get_def bs3882_limits_def)
  show ?thesis
    using zero_seeking_without_lower_target_None[OF a b c] by simp
qed

subsection \<open>Final normalization\<close>

text \<open>
  Claim C8: the final normalization, which divides the solver's ratio vector by its own sum,
  returns a vector that already sums to 1 unchanged.
\<close>

theorem normalize_ratios_idempotent:
  "sum_list xs = 1 \<Longrightarrow> normalize_ratios xs = xs"
  by (simp add: normalize_ratios_def)

theorem normalize_ratios_idempotent_witness:
  "sum_list [1/4, 3/4 :: real] = 1 \<and> normalize_ratios [1/4, 3/4] = [1/4, 3/4]"
proof -
  have s: "sum_list [1/4, 3/4 :: real] = 1" by simp
  show ?thesis using s normalize_ratios_idempotent[OF s] by simp
qed

subsection \<open>Blend parameter calculator\<close>

lemma valid_values_all: "\<forall>v\<in>set vals. v \<noteq> None \<Longrightarrow> [v. Some v \<leftarrow> vals] = map the vals"
  by (induction vals) auto

lemma valid_ratios_all:
  "length ratios = length vals \<Longrightarrow> \<forall>v\<in>set vals. v \<noteq> None \<Longrightarrow> [r. (r, Some v) \<leftarrow> zip ratios vals] = ratios"
  by (induction ratios vals rule: list_induct2) auto

lemma valid_ratios_scale:
  "[r. (r, Some v) \<leftarrow> zip (map ((*) c) ratios) vals] = map ((*) c) [r. (r, Some v) \<leftarrow> zip ratios vals]"
proof (induction ratios arbitrary: vals)
  case Nil
  then show ?case by simp
next
  case (Cons a ratios)
  then show ?case by (cases vals) (auto split: option.splits)
qed

lemma weighted_sum_normalized:
  "sum_list (map2 (*) (map (\<lambda>r. r / s) rs) vs) = sum_list (map2 (*) rs vs) / (s::real)"
proof (induction rs arbitrary: vs)
  case Nil
  then show ?case by simp
next
  case (Cons a rs)
  then show ?case by (cases vs) (auto simp: add_divide_distrib)
qed

lemma blend_value_full:
  assumes "length ratios = length vals" "\<forall>v\<in>set vals. v \<noteq> None"
  shows "blend_value ratios vals = Inr (if 0 < sum_list ratios then Some (sum_list (map2 (*) ratios (map the vals)) / sum_list ratios) else None)"
proof (cases "list_ex (\<lambda>v. v \<noteq> None) vals")
  case True
  then show ?thesis using assms
    by (simp add: blend_value_def valid_values_all valid_ratios_all weighted_sum_normalized Let_def)
next
  case False
  with assms have "vals = []" by (cases vals) (auto simp: list_ex_iff)
  with assms show ?thesis by (simp add: blend_value_def)
qed

lemma blend_value_scale:
  assumes "0 < c"
  shows "blend_value (map ((*) c) ratios) vals = blend_value ratios vals"
proof -
  let ?vr = "[r. (r, Some v) \<leftarrow> zip ratios vals]"
  have s: "sum_list (map ((*) c) ?vr) = c * sum_list ?vr"
    by (simp add: sum_list_const_mult)
  have pos: "0 < c * sum_list ?vr \<longleftrightarrow> 0 < sum_list ?vr"
    using assms by (simp add: zero_less_mult_iff)
  have n: "map (\<lambda>r. r / (c * sum_list ?vr)) (map ((*) c) ?vr) = map (\<lambda>r. r / sum_list ?vr) ?vr"
    using assms by simp
  show ?thesis
    unfolding blend_value_def Let_def valid_ratios_scale s pos n by simp
qed

lemma blend_loop_lookup:
  "blend_loop ratios mp acc = Inr bp \<Longrightarrow> distinct (map fst mp) \<Longrightarrow>
   map_of bp p = (case map_of mp p of None \<Rightarrow> map_of acc p
                  | Some vals \<Rightarrow> (case blend_value ratios vals of Inr (Some b) \<Rightarrow> Some b | _ \<Rightarrow> map_of acc p))"
proof (induction ratios mp acc rule: blend_loop.induct)
  case (1 ratios blend_params)
  then show ?case by simp
next
  case (2 ratios param_name vals rest blend_params)
  from "2.prems"(2) have fresh: "map_of rest param_name = None"
    by (simp add: map_of_eq_None_iff)
  show ?case
  proof (cases "blend_value ratios vals")
    case (Inl e)
    with "2.prems" show ?thesis by simp
  next
    case (Inr ob)
    show ?thesis
    proof (cases ob)
      case None
      with Inr "2.prems" "2.IH"(1)[of ob] fresh show ?thesis
        by (auto split: option.splits sum.splits)
    next
      case (Some b)
      with Inr "2.prems" "2.IH"(2)[of ob b] fresh show ?thesis
        by (auto split: option.splits sum.splits simp: update_conv')
    qed
  qed
qed

lemma blend_loop_total:
  "\<forall>(q, vs)\<in>set mp. length vs = length ratios \<Longrightarrow> \<exists>bp. blend_loop ratios mp acc = Inr bp"
proof (induction ratios mp acc rule: blend_loop.induct)
  case (1 ratios blend_params)
  then show ?case by simp
next
  case (2 ratios param_name vals rest blend_params)
  then have "length ratios = length vals" by simp
  then have "\<exists>ob. blend_value ratios vals = Inr ob"
    by (simp add: blend_value_def Let_def)
  then obtain ob where "blend_value ratios vals = Inr ob" ..
  with 2 show ?case by (cases ob) auto
qed

lemma blend_loop_scale:
  "0 < c \<Longrightarrow> blend_loop (map ((*) c) ratios) mp acc = blend_loop ratios mp acc"
proof (induction ratios mp acc rule: blend_loop.induct)
  case (1 ratios blend_params)
  then show ?case by simp
next
  case (2 ratios param_name vals rest blend_params)
  then show ?case by (simp add: blend_value_scale split: sum.splits option.splits)
qed

lemma calculate_blend_parameters_lookup:
  assumes "calculate_blend_parameters ratios mp = Inr bp"
    and "distinct (map fst mp)"
    and "map_of mp p = Some vals"
  shows "map_of bp p = (case blend_value ratios vals of Inr (Some b) \<Rightarrow> Some b | _ \<Rightarrow> None)"
  using blend_loop_lookup[of ratios mp "[]" bp p] assms
  by (simp add: calculate_blend_parameters_def split: sum.splits option.splits)

text \<open>
  Claim C7: for every ratio vector and every parameter for which every material supplies a
  value, the blend parameter that \<^verbatim>\<open>calculate_blend_parameters\<close> computes is the
  ratio-weighted average of the material values (it is computed exactly when the ratios have
  a positive sum), and rescaling the ratio vector by a positive factor \<open>c\<close> leaves the
  computed blend unchanged. The value vectors are index-aligned with the ratio vector.
\<close>

theorem blend_parameter_weighted_average:
  assumes "distinct (map fst material_params)"
    and "map_of material_params p = Some vals"
    and "\<forall>v\<in>set vals. v \<noteq> None"
    and "\<forall>(q, vs)\<in>set material_params. length vs = length ratios"
    and "0 < c"
  shows "\<exists>bp. calculate_blend_parameters ratios material_params = Inr bp
           \<and> calculate_blend_parameters (map ((*) c) ratios) material_params = Inr bp
           \<and> map_of bp p =
               (if 0 < sum_list ratios
                then Some (sum_list (map2 (*) ratios (map the vals)) / sum_list ratios)
                else None)"
proof -
  from assms(4) obtain bp where bp: "calculate_blend_parameters ratios material_params = Inr bp"
    unfolding calculate_blend_parameters_def using blend_loop_total by blast
  from assms(5) have sc: "calculate_blend_parameters (map ((*) c) ratios) material_params = Inr bp"
    using bp by (simp add: calculate_blend_parameters_def blend_loop_scale)
  from assms(2) have "(p, vals) \<in> set material_params"
    by (rule map_of_SomeD)
  with assms(4) have len: "length ratios = length vals" by auto
  have "map_of bp p =
          (if 0 < sum_list ratios
           then Some (sum_list (map2 (*) ratios (map the vals)) / sum_list ratios)
           else None)"
    using calculate_blend_parameters_lookup[OF bp assms(1) assms(2)]
      blend_value_full[OF len assms(3)]
    by simp
  with bp sc show ?thesis by blast
qed

theorem blend_parameter_weighted_average_witness:
  "\<exists>bp. calculate_blend_parameters [1/2, 1/2] ph_params = Inr bp
        \<and> calculate_blend_parameters [1, 1] ph_params = Inr bp
        \<and> map_of bp ''pH'' = Some (15/2)"
proof -
  have a: "distinct (map fst ph_params)"
    by (simp add: ph_params_def)
  have b: "map_of ph_params ''pH'' = Some [Some 6, Some 9]"
    by (simp add: ph_params_def)
  have c: "\<forall>v\<in>set [Some (6::real), Some 9]. v \<noteq> None"
    by simp
  have d: "\<forall>(q, vs)\<in>set ph_params. length vs = length [1/2, 1/2 :: real]"
    by (simp add: ph_params_def)
  have e: "(0::real) < 2"
    by simp
  show ?thesis
    using blend_parameter_weighted_average[OF a b c d e] by simp
qed

subsection \<open>Parameters left out of the blend\<close>

lemma blend_loop_no_error:
  "blend_loop ratios mp acc = Inr bp \<Longrightarrow> (p, vals) \<in> set mp \<Longrightarrow> \<exists>ob. blend_value ratios vals = Inr ob"
proof (induction ratios mp acc rule: blend_loop.induct)
  case (1 ratios blend_params)
  then show ?case by simp
next
  case (2 ratios param_name vs rest blend_params)
  then show ?case
    by (auto split: sum.splits option.splits)
qed

lemma blend_value_None_iff:
  "blend_value ratios vals = Inr ob \<Longrightarrow>
   (ob = None) = (\<not> list_ex (\<lambda>v. v \<noteq> None) vals \<or> sum_list [r. (r, Some v) \<leftarrow> zip ratios vals] \<le> 0)"
  by (auto simp: blend_value_def Let_def split: if_splits)

lemma objective_loop_skip:
  "map_of bp p = None \<Longrightarrow>
   objective_loop bp limits tol targets acc = objective_loop bp limits tol (filter (\<lambda>(q, t). q \<noteq> p) targets) acc"
proof (induction bp limits tol targets acc rule: objective_loop.induct)
  case (1 blend_params limits tol total_error)
  then show ?case by simp
next
  case (2 blend_params limits tol param_name target_value rest total_error)
  then show ?case
    by (auto simp: Let_def split: option.splits sum.splits)
qed

lemma residual_of_parameter:
  "residual_of targets limits tol q b = Inr r \<Longrightarrow> parameter r = q"
  by (auto simp: residual_of_def Let_def split: option.splits)

lemma residuals_loop_parameters:
  "residuals_loop targets limits tol bps acc = Inr rs \<Longrightarrow> map parameter rs = map parameter acc @ map fst bps"
proof (induction targets limits tol bps acc rule: residuals_loop.induct)
  case (1 targets limits tol acc)
  then show ?case by simp
next
  case (2 targets limits tol param_name blend_val rest acc)
  then show ?case
    by (auto split: sum.splits dest: residual_of_parameter)
qed

lemma set_sort_desc: "set (sort_desc k xs) = set xs"
  by (simp add: sort_desc_def)

lemma length_sort_desc: "length (sort_desc k xs) = length xs"
  by (simp add: sort_desc_def)

lemma calculate_residuals_parameters:
  assumes "calculate_residuals bp targets limits cfg = Inr rs"
  shows "parameter ` set rs = fst ` set bp \<and> length rs = length bp"
proof -
  from assms obtain us where us: "residuals_loop targets limits (get_tolerance cfg) bp [] = Inr us"
    and rs: "rs = sort_desc (\<lambda>r. \<bar>residualPercent r\<bar>) us"
    by (auto simp: calculate_residuals_def split: sum.splits)
  from residuals_loop_parameters[OF us] have m: "map parameter us = map fst bp" by simp
  have "parameter ` set us = fst ` set bp"
    using arg_cong[OF m, of set] by simp
  moreover have "length us = length bp"
    using arg_cong[OF m, of length] by simp
  ultimately show ?thesis
    by (simp add: rs set_sort_desc length_sort_desc)
qed

lemma build_result_fields:
  assumes "build_result succ ratios materials rs bp iters conv relaxed cfg = Inr res"
  shows "success res = succ" "residuals res = rs" "compliance res = compliance_of rs"
    "soilTexture res = soil_texture_of bp"
    "warnings res = warnings_of (exceeding_count (compliance_of rs)) (marginal_count (compliance_of rs)) relaxed (missing_params_of cfg bp)"
    "relaxedTolerance (optimizationDetails res) = relaxed"
  using assms by (auto simp: build_result_def Let_def split: if_splits)

lemma zinc_params:
  "extract_material_parameters [material_a, material_b] zinc_config
     = [(''pH'', [Some 6, Some 9]), (''Zinc'', [Some 120, None])]"
  by (simp add: extract_material_parameters_def material_a_def material_b_def zinc_config_def dict_get_def)

lemma zinc_targets:
  "get_targets_and_limits [(''pH'', [Some 6, Some 9]), (''Zinc'', [Some 120, None])] zinc_config
     = ([(''pH'', Some 7), (''Zinc'', Some 300)],
        [(''pH'', [''lower'' \<mapsto> Some 5.5, ''upper'' \<mapsto> Some 8.5]),
         (''Zinc'', [''lower'' \<mapsto> None, ''upper'' \<mapsto> Some 300])])"
  by (simp add: get_targets_and_limits_def zinc_config_def resolve_limits_def resolve_target_def dict_get_def bs3882_limits_def zero_seeking_def Let_def)

lemma zinc_blend:
  "calculate_blend_parameters [0, 1] [(''pH'', [Some 6, Some 9]), (''Zinc'', [Some 120, None])]
     = Inr [(''pH'', 9)]"
  by (simp add: calculate_blend_parameters_def blend_value_def)


lemma zinc_residuals:
  "calculate_residuals [(''pH'', 9)] [(''pH'', Some 7), (''Zinc'', Some 300)]
     [(''pH'', [''lower'' \<mapsto> Some 5.5, ''upper'' \<mapsto> Some 8.5]),
      (''Zinc'', [''lower'' \<mapsto> None, ''upper'' \<mapsto> Some 300])] zinc_config
   = Inr [\<lparr>parameter = ''pH'', rvalue = 9, lowerLimit = Some 5.5, upperLimit = Some 8.5,
            target = 7, residual = 1/2, residualPercent = 50/7, status = compliant\<rparr>]"
  by (simp add: calculate_residuals_def residual_of_def residual_value_def residual_status_def
      dict_get_def get_tolerance_def zinc_config_def sort_desc_def Let_def)


lemma zinc_result:
  "\<exists>res. build_result True [0, 1] [material_a, material_b]
           [\<lparr>parameter = ''pH'', rvalue = 9, lowerLimit = Some 5.5, upperLimit = Some 8.5,
              target = 7, residual = 1/2, residualPercent = 50/7, status = compliant\<rparr>]
           [(''pH'', 9)] 1 True None zinc_config = Inr res
   \<and> map parameter (residuals res) = [''pH''] \<and> totalParameters (compliance res) = 1 \<and> warnings res = [MissingWarning [''Zinc''] None]"
  by (simp add: build_result_def compliance_of_def warnings_of_def missing_params_of_def zinc_config_def Let_def)

text \<open>
  Claim C9, as amended. \<^verbatim>\<open>calculate_blend_parameters\<close> leaves a parameter out of the blend
  exactly when no material supplies a value for it or the ratios of the materials that do
  supply one have a sum that is not positive (a sum of 0 in particular: the division of the
  re-normalization is never reached). A parameter that is left out adds nothing to the
  objective, has no residual entry and is not counted in the compliance tally. When it is a
  selected parameter it is one of the missing parameters of the missing-data warning, which
  names the first five of them and only counts the others: the parameter is named when it
  is among the first five, and is otherwise part of the count of the remaining ones.

  The claim as stated, that the parameter is listed in the warning, fails for the sixth of
  six missing parameters; the counterexample has Zinc, reported by a material whose ratio is
  0, in that place.
\<close>

theorem omitted_parameter:
  assumes "distinct (map fst material_params)"
    and "map_of material_params p = Some vals"
    and "calculate_blend_parameters ratios material_params = Inr bp"
  shows "((map_of bp p = None) =
            (\<not> list_ex (\<lambda>v. v \<noteq> None) vals \<or> sum_list [r. (r, Some v) \<leftarrow> zip ratios vals] \<le> 0))
       \<and> (map_of bp p = None \<longrightarrow>
            calculate_objective ratios material_params targets limits cfg
              = calculate_objective ratios material_params (filter (\<lambda>(q, t). q \<noteq> p) targets) limits cfg
          \<and> (\<forall>rs. calculate_residuals bp targets limits cfg = Inr rs \<longrightarrow>
                p \<notin> parameter ` set rs
              \<and> (\<forall>res. build_result succ ratios materials rs bp iters conv relaxed cfg = Inr res \<longrightarrow>
                    p \<notin> parameter ` set (residuals res)
                  \<and> totalParameters (compliance res) = length bp
                  \<and> (p \<in> set (selectedParameters cfg) \<longrightarrow>
                        p \<in> set (missing_params_of cfg bp)
                      \<and> MissingWarning (take 5 (missing_params_of cfg bp))
                          (if length (missing_params_of cfg bp) > 5
                           then Some (length (missing_params_of cfg bp) - 5) else None)
                          \<in> set (warnings res)
                      \<and> (p \<notin> set (take 5 (missing_params_of cfg bp)) \<longrightarrow>
                            length (missing_params_of cfg bp) > 5)))))"
proof -
  from assms(2) have mem: "(p, vals) \<in> set material_params" by (rule map_of_SomeD)
  from assms(3) mem obtain ob where ob: "blend_value ratios vals = Inr ob"
    unfolding calculate_blend_parameters_def using blend_loop_no_error by blast
  have lk: "map_of bp p = ob"
    using calculate_blend_parameters_lookup[OF assms(3) assms(1) assms(2)] ob
    by (simp split: option.splits)
  have A: "(map_of bp p = None) =
            (\<not> list_ex (\<lambda>v. v \<noteq> None) vals \<or> sum_list [r. (r, Some v) \<leftarrow> zip ratios vals] \<le> 0)"
    using blend_value_None_iff[OF ob] lk by simp
  have B: "calculate_objective ratios material_params targets limits cfg
              = calculate_objective ratios material_params (filter (\<lambda>(q, t). q \<noteq> p) targets) limits cfg"
    if "map_of bp p = None"
    using that assms(3) objective_loop_skip[of bp p limits "get_tolerance cfg / 100" targets 0]
    by (simp add: calculate_objective_def)
  have C: "p \<notin> parameter ` set rs" "length rs = length bp"
    if "map_of bp p = None" "calculate_residuals bp targets limits cfg = Inr rs" for rs
    using that calculate_residuals_parameters[of bp targets limits cfg rs]
    by (simp_all add: map_of_eq_None_iff)
  have D: "p \<in> set (missing_params_of cfg bp)
         \<and> MissingWarning (take 5 (missing_params_of cfg bp))
                          (if length (missing_params_of cfg bp) > 5
                           then Some (length (missing_params_of cfg bp) - 5) else None)
                          \<in> set (warnings res)
         \<and> (p \<notin> set (take 5 (missing_params_of cfg bp)) \<longrightarrow>
               length (missing_params_of cfg bp) > 5)"
    if "map_of bp p = None" "p \<in> set (selectedParameters cfg)"
      "build_result succ ratios materials rs bp iters conv relaxed cfg = Inr res" for rs res
  proof -
    from that(1,2) have m: "p \<in> set (missing_params_of cfg bp)"
      by (simp add: missing_params_of_def)
    then have "missing_params_of cfg bp \<noteq> []" by auto
    then have w: "MissingWarning (take 5 (missing_params_of cfg bp))
                          (if length (missing_params_of cfg bp) > 5
                           then Some (length (missing_params_of cfg bp) - 5) else None)
                          \<in> set (warnings res)"
      using build_result_fields(5)[OF that(3)] by (simp add: warnings_of_def)
    have "length (missing_params_of cfg bp) > 5"
      if "p \<notin> set (take 5 (missing_params_of cfg bp))"
    proof (rule ccontr)
      assume "\<not> length (missing_params_of cfg bp) > 5"
      then have "take 5 (missing_params_of cfg bp) = missing_params_of cfg bp"
        by simp
      with that m show False by simp
    qed
    with m w show ?thesis by blast
  qed
  have E: "residuals res = rs \<and> totalParameters (compliance res) = length rs"
    if "build_result succ ratios materials rs bp iters conv relaxed cfg = Inr res" for rs res
    using build_result_fields(2,3)[OF that] by (simp add: compliance_of_def Let_def)
  show ?thesis
    using A B C D E by (simp)
qed

theorem omitted_parameter_witness:
  "list_ex (\<lambda>v. v \<noteq> None) [Some (120::real), None]
   \<and> sum_list [r. (r, Some v) \<leftarrow> zip [0, 1::real] [Some (120::real), None]] = 0
   \<and> calculate_blend_parameters [0, 1] (extract_material_parameters [material_a, material_b] zinc_config)
        = Inr [(''pH'', 9)]
   \<and> map_of [(''pH'', 9::real)] ''Zinc'' = None
   \<and> (\<exists>rs res.
          calculate_residuals [(''pH'', 9)]
            (fst (get_targets_and_limits (extract_material_parameters [material_a, material_b] zinc_config) zinc_config))
            (snd (get_targets_and_limits (extract_material_parameters [material_a, material_b] zinc_config) zinc_config))
            zinc_config = Inr rs
        \<and> build_result True [0, 1] [material_a, material_b] rs [(''pH'', 9)] 1 True None zinc_config = Inr res
        \<and> map parameter (residuals res) = [''pH'']
        \<and> totalParameters (compliance res) = 1
        \<and> warnings res = [MissingWarning [''Zinc''] None])"
proof -
  let ?mp = "[(''pH'', [Some 6, Some 9]), (''Zinc'', [Some (120::real), None])]"
  let ?r = "\<lparr>parameter = ''pH'', rvalue = 9, lowerLimit = Some 5.5, upperLimit = Some 8.5,
             target = 7, residual = 1/2, residualPercent = 50/7, status = compliant\<rparr>"
  have a: "distinct (map fst ?mp)" by simp
  have b: "map_of ?mp ''Zinc'' = Some [Some 120, None]" by simp
  have c: "calculate_blend_parameters [0, 1] ?mp = Inr [(''pH'', 9)]" by (rule zinc_blend)
  have d: "map_of [(''pH'', 9::real)] ''Zinc'' = None"
    using omitted_parameter[OF a b c] by simp
  have e: "list_ex (\<lambda>v. v \<noteq> None) [Some (120::real), None]" by simp
  have f: "sum_list [r. (r, Some v) \<leftarrow> zip [0, 1::real] [Some (120::real), None]] = 0" by simp
  have g: "calculate_blend_parameters [0, 1]
             (extract_material_parameters [material_a, material_b] zinc_config) = Inr [(''pH'', 9)]"
    by (simp only: zinc_params zinc_blend)
  have h: "calculate_residuals [(''pH'', 9)]
            (fst (get_targets_and_limits (extract_material_parameters [material_a, material_b] zinc_config) zinc_config))
            (snd (get_targets_and_limits (extract_material_parameters [material_a, material_b] zinc_config) zinc_config))
            zinc_config = Inr [?r]"
    by (simp only: zinc_params zinc_targets fst_conv snd_conv zinc_residuals)
  from zinc_result obtain res where
    "build_result True [0, 1] [material_a, material_b] [?r] [(''pH'', 9)] 1 True None zinc_config = Inr res
     \<and> map parameter (residuals res) = [''pH''] \<and> totalParameters (compliance res) = 1
     \<and> warnings res = [MissingWarning [''Zinc''] None]" ..
  then have i: "build_result True [0, 1] [material_a, material_b] [?r] [(''pH'', 9)] 1 True None zinc_config = Inr res"
    and j: "map parameter (residuals res) = [''pH'']"
    and k: "totalParameters (compliance res) = 1"
    and l: "warnings res = [MissingWarning [''Zinc''] None]"
    by (rule conjunct1, rule conjunct2[THEN conjunct1], rule conjunct2[THEN conjunct2, THEN conjunct1], rule conjunct2[THEN conjunct2, THEN conjunct2])
  show ?thesis
    by (intro conjI exI) (rule d e f g h i j k l)+
qed

lemma six_params:
  "extract_material_parameters [material_a, material_b] six_config
     = [(''Boron'', [None, None]), (''Cobalt'', [None, None]), (''Iron'', [None, None]),
        (''Manganese'', [None, None]), (''Sodium'', [None, None]), (''Zinc'', [Some 120, None])]"
  by (simp add: extract_material_parameters_def material_a_def material_b_def six_config_def
        dict_get_def)

lemma six_blend:
  "calculate_blend_parameters [0, 1]
     [(''Boron'', [None, None]), (''Cobalt'', [None, None]), (''Iron'', [None, None]),
      (''Manganese'', [None, None]), (''Sodium'', [None, None]), (''Zinc'', [Some 120, None])]
   = Inr []"
  by (simp add: calculate_blend_parameters_def blend_value_def)

theorem sixth_missing_parameter_not_named:
  "map_of (extract_material_parameters [material_a, material_b] six_config) ''Zinc''
     = Some [Some 120, None]
   \<and> calculate_blend_parameters [0, 1]
       (extract_material_parameters [material_a, material_b] six_config) = Inr []
   \<and> ''Zinc'' \<in> set (selectedParameters six_config)
   \<and> calculate_residuals []
       (fst (get_targets_and_limits
               (extract_material_parameters [material_a, material_b] six_config) six_config))
       (snd (get_targets_and_limits
               (extract_material_parameters [material_a, material_b] six_config) six_config))
       six_config = Inr []
   \<and> map_sum id warnings
       (build_result True [0, 1] [material_a, material_b] [] [] 1 True None six_config)
       = Inr [MissingWarning [''Boron'', ''Cobalt'', ''Iron'', ''Manganese'', ''Sodium''] (Some 1)]
   \<and> ''Zinc'' \<notin> set [''Boron'', ''Cobalt'', ''Iron'', ''Manganese'', ''Sodium'']"
proof -
  have a: "map_of (extract_material_parameters [material_a, material_b] six_config) ''Zinc''
             = Some [Some 120, None]"
    by (simp add: six_params)
  have b: "calculate_blend_parameters [0, 1]
             (extract_material_parameters [material_a, material_b] six_config) = Inr []"
    by (simp only: six_params six_blend)
  have c: "''Zinc'' \<in> set (selectedParameters six_config)"
    by (simp add: six_config_def)
  have d: "calculate_residuals [] t l six_config = Inr []" for t l
    by (simp add: calculate_residuals_def sort_desc_def)
  have e: "map_sum id warnings
             (build_result True [0, 1] [material_a, material_b] [] [] 1 True None six_config)
           = Inr [MissingWarning [''Boron'', ''Cobalt'', ''Iron'', ''Manganese'', ''Sodium'']
                    (Some 1)]"
    by (simp add: build_result_def compliance_of_def warnings_of_def missing_params_of_def
          six_config_def Let_def)
  have f: "''Zinc'' \<notin> set [''Boron'', ''Cobalt'', ''Iron'', ''Manganese'', ''Sodium'']"
    by simp
  from a b c d e f show ?thesis
    by (intro conjI)
qed

subsection \<open>Soil texture\<close>

text \<open>
  Claim C10: the soil-texture check is skipped (\<^verbatim>\<open>soilTexture\<close> is null in the result) when
  any of Clay, Silt, Sand is absent from the blend parameters and also when their sum is not
  strictly positive; the percentages are computed only when the total exceeds 0, as each
  value divided by the total, times 100.
\<close>

theorem soil_texture_guard:
  assumes "build_result succ ratios materials rs bp iters conv relaxed cfg = Inr res"
  shows "((soilTexture res = None) =
            (map_of bp ''Clay'' = None \<or> map_of bp ''Silt'' = None \<or> map_of bp ''Sand'' = None
             \<or> the (map_of bp ''Clay'') + the (map_of bp ''Silt'') + the (map_of bp ''Sand'') \<le> 0))
       \<and> (\<forall>t. soilTexture res = Some t \<longrightarrow>
              (let total = the (map_of bp ''Clay'') + the (map_of bp ''Silt'') + the (map_of bp ''Sand'')
               in 0 < total
                  \<and> clay t = the (map_of bp ''Clay'') / total * 100
                  \<and> silt t = the (map_of bp ''Silt'') / total * 100
                  \<and> sand t = the (map_of bp ''Sand'') / total * 100
                  \<and> withinAcceptableRange t =
                      (8 \<le> clay t \<and> clay t \<le> 35 \<and> 15 \<le> silt t \<and> silt t \<le> 60
                       \<and> 30 \<le> sand t \<and> sand t \<le> 60)))"
proof -
  have "soilTexture res = soil_texture_of bp"
    using build_result_fields(4)[OF assms] .
  then show ?thesis
    by (auto simp: soil_texture_of_def Let_def split: if_splits)
qed

lemma build_result_returns:
  "length materials \<le> length ratios \<Longrightarrow>
   \<exists>res. build_result succ ratios materials rs bp iters conv relaxed cfg = Inr res"
  by (simp add: build_result_def Let_def)

lemma texture_result_zero:
  "\<exists>res. build_result True [1/2, 1/2] [material_a, material_b] [] texture_zero_blend 1 True None zinc_config = Inr res"
  by (rule build_result_returns) simp

lemma texture_result:
  "\<exists>res. build_result True [1/2, 1/2] [material_a, material_b] [] texture_blend 1 True None zinc_config = Inr res"
  by (rule build_result_returns) simp

theorem soil_texture_guard_witness:
  "(\<exists>res. build_result True [1/2, 1/2] [material_a, material_b] [] texture_zero_blend 1 True None zinc_config = Inr res
      \<and> soilTexture res = None)
   \<and> (\<exists>res. build_result True [1/2, 1/2] [material_a, material_b] [] texture_blend 1 True None zinc_config = Inr res
      \<and> soilTexture res = Some \<lparr>clay = 800/53, silt = 1500/53, sand = 3000/53, withinAcceptableRange = True\<rparr>)"
proof -
  from texture_result_zero obtain res0 where
    r0: "build_result True [1/2, 1/2] [material_a, material_b] [] texture_zero_blend 1 True None zinc_config = Inr res0" ..
  have z: "soilTexture res0 = None"
    using soil_texture_guard[OF r0] by (simp add: texture_zero_blend_def)
  from texture_result obtain res1 where
    r1: "build_result True [1/2, 1/2] [material_a, material_b] [] texture_blend 1 True None zinc_config = Inr res1" ..
  have "soilTexture res1 \<noteq> None"
    using soil_texture_guard[OF r1] by (simp add: texture_blend_def)
  then obtain t where t: "soilTexture res1 = Some t" by blast
  have "t = \<lparr>clay = 800/53, silt = 1500/53, sand = 3000/53, withinAcceptableRange = True\<rparr>"
    using soil_texture_guard[OF r1] t by (simp add: texture_blend_def Let_def)
  with t have n: "soilTexture res1 = Some \<lparr>clay = 800/53, silt = 1500/53, sand = 3000/53, withinAcceptableRange = True\<rparr>"
    by simp
  show ?thesis
    by (intro conjI exI) (rule r0 z r1 n)+
qed

subsection \<open>Residual statuses\<close>

lemma residual_of_status:
  "residual_of targets limits tol q b = Inr r \<Longrightarrow> status r = residual_status tol (residualPercent r)"
  by (auto simp: residual_of_def Let_def split: option.splits)

lemma residuals_loop_status:
  "residuals_loop targets limits tol bps acc = Inr rs \<Longrightarrow>
   \<forall>r\<in>set acc. status r = residual_status tol (residualPercent r) \<Longrightarrow>
   \<forall>r\<in>set rs. status r = residual_status tol (residualPercent r)"
proof (induction targets limits tol bps acc rule: residuals_loop.induct)
  case (1 targets limits tol acc)
  then show ?case by simp
next
  case (2 targets limits tol param_name blend_val rest acc)
  show ?case
  proof (cases "residual_of targets limits tol param_name blend_val")
    case (Inl e)
    with "2.prems" show ?thesis by simp
  next
    case (Inr r)
    from "2.prems"(2) residual_of_status[OF Inr] have accs:
      "\<forall>r\<in>set (acc @ [r]). status r = residual_status tol (residualPercent r)"
      by simp
    from "2.prems"(1) Inr have "residuals_loop targets limits tol rest (acc @ [r]) = Inr rs"
      by simp
    then show ?thesis
      using accs by (rule "2.IH"[OF Inr])
  qed
qed

lemma sort_desc_sorted:
  "sorted_wrt (\<lambda>a b. key a \<ge> key b) (sort_desc key xs)"
  using sorted_sort_key[of key "rev xs"]
  by (simp add: sort_desc_def sorted_wrt_rev sorted_map)

text \<open>
  Claim C5: in the list that \<^verbatim>\<open>calculate_residuals\<close> returns, every entry has the status
  compliant when its \<^verbatim>\<open>residualPercent\<close> is at most the configured tolerance (taken as a
  percentage, equality included), marginal when it is above the tolerance and at most 1.5
  times the tolerance (equality included), and exceeding otherwise; and the list is in
  descending order of the absolute \<^verbatim>\<open>residualPercent\<close>.
\<close>

theorem residual_status_and_order:
  assumes "calculate_residuals bp targets limits cfg = Inr rs"
  shows "(\<forall>r\<in>set rs. status r =
             (if residualPercent r \<le> get_tolerance cfg then compliant
              else if residualPercent r \<le> get_tolerance cfg * 1.5 then marginal
              else exceeding))
       \<and> sorted_wrt (\<lambda>a b. \<bar>residualPercent a\<bar> \<ge> \<bar>residualPercent b\<bar>) rs"
proof -
  from assms obtain us where us: "residuals_loop targets limits (get_tolerance cfg) bp [] = Inr us"
    and rs: "rs = sort_desc (\<lambda>r. \<bar>residualPercent r\<bar>) us"
    by (auto simp: calculate_residuals_def split: sum.splits)
  from residuals_loop_status[OF us] have
    "\<forall>r\<in>set us. status r = residual_status (get_tolerance cfg) (residualPercent r)"
    by simp
  then have "\<forall>r\<in>set rs. status r = residual_status (get_tolerance cfg) (residualPercent r)"
    by (simp only: rs set_sort_desc)
  then have "\<forall>r\<in>set rs. status r =
             (if residualPercent r \<le> get_tolerance cfg then compliant
              else if residualPercent r \<le> get_tolerance cfg * 1.5 then marginal
              else exceeding)"
    by (simp only: residual_status_def)
  moreover have "sorted_wrt (\<lambda>a b. \<bar>residualPercent a\<bar> \<ge> \<bar>residualPercent b\<bar>) rs"
    unfolding rs by (rule sort_desc_sorted)
  ultimately show ?thesis ..
qed

lemma boundary_residuals:
  "calculate_residuals boundary_blend [] [] zinc_config =
     Inr [\<lparr>parameter = ''Y'', rvalue = 46/100, lowerLimit = None, upperLimit = None, target = 0,
            residual = 46/100, residualPercent = 46, status = exceeding\<rparr>,
          \<lparr>parameter = ''Z'', rvalue = 45/100, lowerLimit = None, upperLimit = None, target = 0,
            residual = 45/100, residualPercent = 45, status = marginal\<rparr>,
          \<lparr>parameter = ''X'', rvalue = 3/10, lowerLimit = None, upperLimit = None, target = 0,
            residual = 3/10, residualPercent = 30, status = compliant\<rparr>]"
  by (simp add: boundary_blend_def calculate_residuals_def residual_of_def residual_value_def
        residual_status_def dict_get_def get_tolerance_def zinc_config_def sort_desc_def Let_def)

theorem residual_status_and_order_witness:
  "\<exists>rs. calculate_residuals boundary_blend [] [] zinc_config = Inr rs
       \<and> map residualPercent rs = [46, 45, 30]
       \<and> map status rs = [exceeding, marginal, compliant]
       \<and> get_tolerance zinc_config = 30"
proof -
  note t = residual_status_and_order[OF boundary_residuals]
  have "get_tolerance zinc_config = 30"
    by (simp add: get_tolerance_def zinc_config_def)
  with t boundary_residuals show ?thesis
    by simp
qed

subsection \<open>Constraint builder\<close>

lemma fold_append_concat:
  "fold (\<lambda>c acc. acc @ f c) cs init = init @ concat (map f cs)"
  by (induction cs arbitrary: init) simp_all

lemma find_material_index_None:
  "(find_material_index materials mid = None) = (mid \<notin> mat_id ` set materials)"
proof -
  have "snd ` set (List.enumerate 0 materials) = set materials"
    by (simp flip: set_map)
  then have "mat_id ` set materials = mat_id ` snd ` set (List.enumerate 0 materials)"
    by simp
  then have "mat_id ` set materials = (\<lambda>p. mat_id (snd p)) ` set (List.enumerate 0 materials)"
    by (simp only: image_image)
  then have "(\<exists>x. x \<in> set (List.enumerate 0 materials) \<and> (case x of (i, m) \<Rightarrow> mat_id m = mid))
               = (mid \<in> mat_id ` set materials)"
    by (simp only: case_prod_beta) blast
  then show ?thesis
    by (simp add: find_material_index_def find_None_iff)
qed

lemma find_material_index_Some:
  assumes "find_material_index materials mid = Some idx"
  shows "idx < length materials \<and> mat_id (materials ! idx) = mid \<and> (\<forall>j<idx. mat_id (materials ! j) \<noteq> mid)"
proof -
  from assms obtain m where "List.find (\<lambda>(i, m). mat_id m = mid) (List.enumerate 0 materials) = Some (idx, m)"
    by (auto simp: find_material_index_def)
  then show ?thesis
    by (auto simp: find_Some_iff nth_enumerate_eq)
qed

text \<open>
  Claim C6: \<^verbatim>\<open>setup_constraints\<close> emits the equality constraint (sum of the ratios minus 1)
  first, and then, for each entry of \<^verbatim>\<open>config.materialConstraints\<close> in order, nothing when
  no material has the entry's id, and otherwise the inequality \<open>ratio[idx] - min/100\<close> when
  \<^verbatim>\<open>minPercentage\<close> is present followed by the inequality \<open>max/100 - ratio[idx]\<close> when
  \<^verbatim>\<open>maxPercentage\<close> is present, \<open>idx\<close> being the index of the first material with that id.
  The function has no failing path.
\<close>

theorem setup_constraints_emits:
  "setup_constraints materials cfg n =
     \<lparr>con_type = Eq, con_fun = (\<lambda>x. sum_list x - 1)\<rparr> #
     concat (map (\<lambda>c. case find_material_index materials (materialId c) of
                         None \<Rightarrow> []
                       | Some idx \<Rightarrow>
                           (case minPercentage c of
                              None \<Rightarrow> []
                            | Some mn \<Rightarrow> [\<lparr>con_type = Ineq, con_fun = (\<lambda>x. x ! idx - mn / 100)\<rparr>])
                           @ (case maxPercentage c of
                                None \<Rightarrow> []
                              | Some mx \<Rightarrow> [\<lparr>con_type = Ineq, con_fun = (\<lambda>x. mx / 100 - x ! idx)\<rparr>]))
                 (materialConstraints cfg))
   \<and> (\<forall>mid. (find_material_index materials mid = None) = (mid \<notin> mat_id ` set materials))
   \<and> (\<forall>mid idx. find_material_index materials mid = Some idx \<longrightarrow>
          idx < length materials \<and> mat_id (materials ! idx) = mid
          \<and> (\<forall>j<idx. mat_id (materials ! j) \<noteq> mid))"
proof -
  let ?f = "\<lambda>c. case find_material_index materials (materialId c) of
                         None \<Rightarrow> []
                       | Some idx \<Rightarrow>
                           (case minPercentage c of
                              None \<Rightarrow> []
                            | Some mn \<Rightarrow> [\<lparr>con_type = Ineq, con_fun = (\<lambda>x. x ! idx - mn / 100)\<rparr>])
                           @ (case maxPercentage c of
                                None \<Rightarrow> []
                              | Some mx \<Rightarrow> [\<lparr>con_type = Ineq, con_fun = (\<lambda>x. mx / 100 - x ! idx)\<rparr>])"
  have "setup_constraints materials cfg n =
          fold (\<lambda>c acc. acc @ ?f c) (materialConstraints cfg)
            [\<lparr>con_type = Eq, con_fun = (\<lambda>x. sum_list x - 1)\<rparr>]"
    unfolding setup_constraints_def Let_def
    by (rule arg_cong[where f="\<lambda>g. fold g (materialConstraints cfg) [\<lparr>con_type = Eq, con_fun = (\<lambda>x. sum_list x - 1)\<rparr>]"])
       (auto simp: fun_eq_iff split: option.splits)
  then have "setup_constraints materials cfg n =
     \<lparr>con_type = Eq, con_fun = (\<lambda>x. sum_list x - 1)\<rparr> # concat (map ?f (materialConstraints cfg))"
    by (simp add: fold_append_concat)
  then show ?thesis
    using find_material_index_None find_material_index_Some by blast
qed

lemma example_indices:
  "find_material_index [material_a, material_b] ''A'' = Some 0"
  "find_material_index [material_a, material_b] ''Q'' = None"
  "find_material_index [material_a, material_b] ''B'' = Some 1"
  by (simp_all add: find_material_index_def material_a_def material_b_def)

theorem setup_constraints_emits_witness:
  "map con_type (setup_constraints [material_a, material_b] constraint_config 2) = [Eq, Ineq, Ineq]
   \<and> map (\<lambda>c. con_fun c [9/10, 1/10]) (setup_constraints [material_a, material_b] constraint_config 2)
       = [0, 1/10, 1/10]"
  using setup_constraints_emits[of "[material_a, material_b]" constraint_config 2]
  by (simp add: constraint_config_def example_indices)

subsection \<open>Objective function\<close>

lemma objective_residual_numeric:
  "\<exists>r. objective_residual bv (Some t) lo up = Inr r"
  by (simp add: objective_residual_def)

lemma objective_loop_sum:
  "\<forall>(p, t)\<in>set targets. map_of bp p \<noteq> None \<longrightarrow> t \<noteq> None \<Longrightarrow>
   objective_loop bp limits tol targets acc = Inr (acc + sum_list (map (objective_term bp limits tol) targets))"
proof (induction bp limits tol targets acc rule: objective_loop.induct)
  case (1 blend_params limits tol total_error)
  then show ?case by simp
next
  case (2 blend_params limits tol param_name target_value rest total_error)
  show ?case
  proof (cases "map_of blend_params param_name")
    case None
    with 2 show ?thesis by (simp add: objective_term_def)
  next
    case (Some bv)
    with "2.prems" obtain t where t: "target_value = Some t" by auto
    obtain r where r: "objective_residual bv (Some t)
           (dict_get (dict_get (map_of limits) param_name Map.empty) ''lower'' None)
           (dict_get (dict_get (map_of limits) param_name Map.empty) ''upper'' None) = Inr r"
      using objective_residual_numeric by blast
    from "2.prems" have rest: "\<forall>(p, t)\<in>set rest. map_of blend_params p \<noteq> None \<longrightarrow> t \<noteq> None"
      by simp
    show ?thesis
    proof (cases "\<bar>r\<bar> > tol")
      case True
      with Some t r rest "2.IH"(2) show ?thesis
        by (simp add: objective_term_def Let_def)
    next
      case False
      with Some t r rest "2.IH"(3) show ?thesis
        by (simp add: objective_term_def Let_def)
    qed
  qed
qed

text \<open>
  Claim C3, as amended. When the blend is computed and every blended parameter has a numeric
  target, \<^verbatim>\<open>calculate_objective\<close> is the sum, over the targeted parameters whose blend value
  is present, of \<open>r\<^sup>2\<close> when \<open>\<bar>r\<bar>\<close> is at most the tolerance divided by 100 and of \<open>r\<^sup>2 * 10\<close>
  when it is above, where the residual \<open>r\<close> is \<open>(lower - blend value) / d\<close> when the blend
  value is below the lower bound, \<open>(blend value - upper) / d\<close> when it is above the upper
  bound, and \<open>(blend value - target) / d\<close> otherwise, with \<open>d\<close> the target, or 1 for a target
  of 0.

  The claim as the specification words it, with the violated bound as both the effective
  value and the reference, gives every out-of-bounds parameter the residual 0; the
  counterexample is a blend whose pH and organic matter are both below their lower bounds.
\<close>

theorem calculate_objective_closed_form:
  assumes "calculate_blend_parameters ratios material_params = Inr bp"
    and "\<forall>(p, t)\<in>set targets. map_of bp p \<noteq> None \<longrightarrow> t \<noteq> None"
  shows "calculate_objective ratios material_params targets limits cfg =
     Inr (\<Sum>(p, t)\<leftarrow>targets.
            case map_of bp p of
              None \<Rightarrow> 0
            | Some bv \<Rightarrow>
                let lower = dict_get (dict_get (map_of limits) p Map.empty) ''lower'' None;
                    upper = dict_get (dict_get (map_of limits) p Map.empty) ''upper'' None;
                    d = (if the t \<noteq> 0 then the t else 1);
                    r = (if lower \<noteq> None \<and> bv < the lower then (the lower - bv) / d
                         else if upper \<noteq> None \<and> bv > the upper then (bv - the upper) / d
                         else (bv - the t) / d)
                in if \<bar>r\<bar> > get_tolerance cfg / 100 then r\<^sup>2 * 10 else r\<^sup>2)"
proof -
  let ?g = "\<lambda>(p, t).
            case map_of bp p of
              None \<Rightarrow> 0
            | Some bv \<Rightarrow>
                let lower = dict_get (dict_get (map_of limits) p Map.empty) ''lower'' None;
                    upper = dict_get (dict_get (map_of limits) p Map.empty) ''upper'' None;
                    d = (if the t \<noteq> 0 then the t else 1);
                    r = (if lower \<noteq> None \<and> bv < the lower then (the lower - bv) / d
                         else if upper \<noteq> None \<and> bv > the upper then (bv - the upper) / d
                         else (bv - the t) / d)
                in if \<bar>r\<bar> > get_tolerance cfg / 100 then r\<^sup>2 * 10 else r\<^sup>2"
  have "objective_term bp limits (get_tolerance cfg / 100) x = ?g x" if "x \<in> set targets" for x
  proof (cases x)
    case (Pair p t)
    show ?thesis
    proof (cases "map_of bp p")
      case None
      with Pair show ?thesis by (simp add: objective_term_def)
    next
      case (Some bv)
      with Pair that assms(2) obtain tv where "t = Some tv" by auto
      with Pair Some show ?thesis
        by (simp add: objective_term_def objective_residual_def Let_def)
    qed
  qed
  then have meq: "map (objective_term bp limits (get_tolerance cfg / 100)) targets = map ?g targets"
    by simp
  have "calculate_objective ratios material_params targets limits cfg =
          Inr (sum_list (map (objective_term bp limits (get_tolerance cfg / 100)) targets))"
    using assms(1) objective_loop_sum[OF assms(2), of limits "get_tolerance cfg / 100" 0]
    by (simp add: calculate_objective_def)
  then show ?thesis
    by (simp only: meq)
qed

lemma poor_targets_limits:
  "get_targets_and_limits poor_params poor_config = (poor_targets, poor_limits)"
  by (simp add: get_targets_and_limits_def poor_params_def poor_config_def poor_targets_def
        poor_limits_def resolve_limits_def resolve_target_def dict_get_def bs3882_limits_def
        zero_seeking_def Let_def)

lemma poor_blend:
  "calculate_blend_parameters [1/2, 1/2] poor_params = Inr [(''pH'', 9/2), (''Organic Matter'', 1)]"
  by (simp add: calculate_blend_parameters_def blend_value_def poor_params_def)

theorem calculate_objective_closed_form_witness:
  "calculate_blend_parameters [1/2, 1/2] poor_params = Inr [(''pH'', 9/2), (''Organic Matter'', 1)]
   \<and> calculate_objective [1/2, 1/2] poor_params poor_targets poor_limits poor_config
       = Inr (1/49 + 1000/729)"
proof -
  have n: "\<forall>(p, t)\<in>set poor_targets.
             map_of [(''pH'', 9/2), (''Organic Matter'', 1::real)] p \<noteq> None \<longrightarrow> t \<noteq> None"
    by (simp add: poor_targets_def del: not_None_eq)
  show ?thesis
    using calculate_objective_closed_form[OF poor_blend n, of poor_limits poor_config] poor_blend
    by (simp add: poor_targets_def poor_limits_def poor_config_def get_tolerance_def dict_get_def
          Let_def power2_eq_square del: not_None_eq)
qed

theorem spec_objective_counterexample:
  "calculate_objective [1/2, 1/2] poor_params poor_targets poor_limits poor_config
     = Inr (1/49 + 1000/729)
   \<and> spec_calculate_objective [1/2, 1/2] poor_params poor_targets poor_limits poor_config = Inr 0"
  by (simp add: calculate_objective_def spec_calculate_objective_def spec_residual_def poor_blend
        objective_residual_def poor_targets_def poor_limits_def poor_config_def get_tolerance_def
        dict_get_def Let_def power2_eq_square del: not_None_eq)

subsection \<open>Solver orchestrator\<close>

lemma get_tolerance_update [simp]: "get_tolerance (cfg\<lparr>tolerance := Some t\<rparr>) = t"
  by (simp add: get_tolerance_def)

lemma relax_sweep_cases:
  assumes "relax_sweep slv obj cfg x0 b c ts (calls, result, relaxed) = Inr (calls', result', relaxed')"
  shows "(\<exists>k<length ts.
            calls' = calls @ map (\<lambda>t. Minimize (t * 100)) (take (Suc k) ts)
          \<and> minimize slv (obj (cfg\<lparr>tolerance := Some (ts ! k * 100)\<rparr>)) x0 b c = Inr result'
          \<and> res_success result' \<and> relaxed' = Some (ts ! k * 100)
          \<and> (\<forall>j<k. \<exists>r. minimize slv (obj (cfg\<lparr>tolerance := Some (ts ! j * 100)\<rparr>)) x0 b c = Inr r
                      \<and> \<not> res_success r))
       \<or> (calls' = calls @ map (\<lambda>t. Minimize (t * 100)) ts \<and> relaxed' = relaxed
          \<and> (\<forall>j<length ts. \<exists>r. minimize slv (obj (cfg\<lparr>tolerance := Some (ts ! j * 100)\<rparr>)) x0 b c = Inr r
                      \<and> \<not> res_success r)
          \<and> (if ts = [] then result' = result
               else minimize slv (obj (cfg\<lparr>tolerance := Some (last ts * 100)\<rparr>)) x0 b c = Inr result'))"
  using assms
proof (induction ts arbitrary: calls result relaxed)
  case Nil
  then show ?case by simp
next
  case (Cons t ts)
  let ?att = "\<lambda>u. minimize slv (obj (cfg\<lparr>tolerance := Some (u * 100)\<rparr>)) x0 b c"
  from Cons.prems obtain r where r: "?att t = Inr r"
    by (auto simp: Let_def split: sum.splits)
  show ?case
  proof (cases "res_success r")
    case True
    with Cons.prems r have "calls' = calls @ [Minimize (t * 100)]" "result' = r" "relaxed' = Some (t * 100)"
      by (simp_all add: Let_def)
    with r True have "0 < length (t # ts) \<and>
            calls' = calls @ map (\<lambda>t. Minimize (t * 100)) (take (Suc 0) (t # ts))
          \<and> ?att ((t # ts) ! 0) = Inr result'
          \<and> res_success result' \<and> relaxed' = Some ((t # ts) ! 0 * 100)
          \<and> (\<forall>j<0. \<exists>r. ?att ((t # ts) ! j) = Inr r \<and> \<not> res_success r)"
      by simp
    then show ?thesis by blast
  next
    case False
    with Cons.prems r have rec: "relax_sweep slv obj cfg x0 b c ts (calls @ [Minimize (t * 100)], r, relaxed)
        = Inr (calls', result', relaxed')"
      by (simp add: Let_def)
    from Cons.IH[OF rec] show ?thesis
    proof (elim disjE exE conjE)
      fix k assume k: "k < length ts"
        "calls' = (calls @ [Minimize (t * 100)]) @ map (\<lambda>t. Minimize (t * 100)) (take (Suc k) ts)"
        "?att (ts ! k) = Inr result'" "res_success result'" "relaxed' = Some (ts ! k * 100)"
        "\<forall>j<k. \<exists>r. ?att (ts ! j) = Inr r \<and> \<not> res_success r"
      have "\<forall>j<Suc k. \<exists>r. ?att ((t # ts) ! j) = Inr r \<and> \<not> res_success r"
      proof (intro allI impI)
        fix j assume "j < Suc k"
        then show "\<exists>r. ?att ((t # ts) ! j) = Inr r \<and> \<not> res_success r"
          using k(6) r False by (cases j) auto
      qed
      with k have "Suc k < length (t # ts) \<and>
            calls' = calls @ map (\<lambda>t. Minimize (t * 100)) (take (Suc (Suc k)) (t # ts))
          \<and> ?att ((t # ts) ! Suc k) = Inr result'
          \<and> res_success result' \<and> relaxed' = Some ((t # ts) ! Suc k * 100)
          \<and> (\<forall>j<Suc k. \<exists>r. ?att ((t # ts) ! j) = Inr r \<and> \<not> res_success r)"
        by simp
      then show ?thesis by blast
    next
      assume a: "calls' = (calls @ [Minimize (t * 100)]) @ map (\<lambda>t. Minimize (t * 100)) ts"
        "relaxed' = relaxed"
        "\<forall>j<length ts. \<exists>r. ?att (ts ! j) = Inr r \<and> \<not> res_success r"
        "if ts = [] then result' = r else ?att (last ts) = Inr result'"
      have "\<forall>j<length (t # ts). \<exists>r. ?att ((t # ts) ! j) = Inr r \<and> \<not> res_success r"
      proof (intro allI impI)
        fix j assume "j < length (t # ts)"
        then show "\<exists>r. ?att ((t # ts) ! j) = Inr r \<and> \<not> res_success r"
          using a(3) r False by (cases j) auto
      qed
      moreover have "?att (last (t # ts)) = Inr result'"
        using a(4) r by (cases "ts = []") simp_all
      ultimately show ?thesis using a(1,2) by simp
    qed
  qed
qed


lemma sweep_percentages:
  "map (\<lambda>t. t * 100) [0.4, 0.5, 0.6, 0.8, 1.0 :: real] = [40, 50, 60, 80, 100]"
  by simp

lemma relax_sweep_percent:
  assumes "relax_sweep slv obj cfg x0 b c [0.4, 0.5, 0.6, 0.8, 1.0] (calls, result, relaxed)
             = Inr (calls', result', relaxed')"
  shows "(\<exists>k<5.
            calls' = calls @ map Minimize (take (Suc k) [40, 50, 60, 80, 100])
          \<and> minimize slv (obj (cfg\<lparr>tolerance := Some ([40, 50, 60, 80, 100] ! k)\<rparr>)) x0 b c = Inr result'
          \<and> res_success result' \<and> relaxed' = Some ([40, 50, 60, 80, 100] ! k)
          \<and> (\<forall>j<k. \<exists>r. minimize slv (obj (cfg\<lparr>tolerance := Some ([40, 50, 60, 80, 100] ! j)\<rparr>)) x0 b c = Inr r
                      \<and> \<not> res_success r))
       \<or> (calls' = calls @ map Minimize [40, 50, 60, 80, 100] \<and> relaxed' = relaxed
          \<and> (\<forall>j<5. \<exists>r. minimize slv (obj (cfg\<lparr>tolerance := Some ([40, 50, 60, 80, 100] ! j)\<rparr>)) x0 b c = Inr r
                      \<and> \<not> res_success r)
          \<and> \<not> res_success result')"
proof -
  let ?ts = "[0.4, 0.5, 0.6, 0.8, 1.0 :: real]"
  let ?ps = "[40, 50, 60, 80, 100 :: real]"
  have nth: "?ts ! j * 100 = ?ps ! j" if "j < 5" for j
  proof -
    from that have "j < length ?ts" by simp
    then have "map (\<lambda>t. t * 100) ?ts ! j = ?ts ! j * 100" by (rule nth_map)
    then show ?thesis by (simp only: sweep_percentages)
  qed
  have tk: "map (\<lambda>t. Minimize (t * 100)) (take n ?ts) = map Minimize (take n ?ps)" for n
  proof -
    have "map (\<lambda>t. Minimize (t * 100)) (take n ?ts) = map Minimize (take n (map (\<lambda>t. t * 100) ?ts))"
      by (simp only: take_map map_map comp_def)
    then show ?thesis by (simp only: sweep_percentages)
  qed
  have conv: "\<exists>r. minimize slv (obj (cfg\<lparr>tolerance := Some (?ps ! j)\<rparr>)) x0 b c = Inr r \<and> \<not> res_success r"
    if "j < 5"
      "\<exists>r. minimize slv (obj (cfg\<lparr>tolerance := Some (?ts ! j * 100)\<rparr>)) x0 b c = Inr r \<and> \<not> res_success r"
    for j
    using that(2) by (simp only: nth[OF that(1)])
  from relax_sweep_cases[OF assms] show ?thesis
  proof (elim disjE exE conjE)
    fix k assume k: "k < length ?ts"
      "calls' = calls @ map (\<lambda>t. Minimize (t * 100)) (take (Suc k) ?ts)"
      "minimize slv (obj (cfg\<lparr>tolerance := Some (?ts ! k * 100)\<rparr>)) x0 b c = Inr result'"
      "res_success result'" "relaxed' = Some (?ts ! k * 100)"
      "\<forall>j<k. \<exists>r. minimize slv (obj (cfg\<lparr>tolerance := Some (?ts ! j * 100)\<rparr>)) x0 b c = Inr r \<and> \<not> res_success r"
    from k(1) have k5: "k < 5" by simp
    have f: "\<forall>j<k. \<exists>r. minimize slv (obj (cfg\<lparr>tolerance := Some (?ps ! j)\<rparr>)) x0 b c = Inr r \<and> \<not> res_success r"
    proof (intro allI impI)
      fix j assume jk: "j < k"
      with k5 have j5: "j < 5" by simp
      from k(6) jk have "\<exists>r. minimize slv (obj (cfg\<lparr>tolerance := Some (?ts ! j * 100)\<rparr>)) x0 b c = Inr r \<and> \<not> res_success r"
        by blast
      then show "\<exists>r. minimize slv (obj (cfg\<lparr>tolerance := Some (?ps ! j)\<rparr>)) x0 b c = Inr r \<and> \<not> res_success r"
        by (rule conv[OF j5])
    qed
    have c1: "calls' = calls @ map Minimize (take (Suc k) ?ps)"
      using k(2) by (simp only: tk)
    have c2: "minimize slv (obj (cfg\<lparr>tolerance := Some (?ps ! k)\<rparr>)) x0 b c = Inr result'"
      using k(3) by (simp only: nth[OF k5])
    have c3: "relaxed' = Some (?ps ! k)"
      using k(5) by (simp only: nth[OF k5])
    from k5 c1 c2 k(4) c3 f show ?thesis by blast
  next
    assume a: "calls' = calls @ map (\<lambda>t. Minimize (t * 100)) ?ts" "relaxed' = relaxed"
      "\<forall>j<length ?ts. \<exists>r. minimize slv (obj (cfg\<lparr>tolerance := Some (?ts ! j * 100)\<rparr>)) x0 b c = Inr r \<and> \<not> res_success r"
      "if ?ts = [] then result' = result
       else minimize slv (obj (cfg\<lparr>tolerance := Some (last ?ts * 100)\<rparr>)) x0 b c = Inr result'"
    have all: "\<forall>j<5. \<exists>r. minimize slv (obj (cfg\<lparr>tolerance := Some (?ps ! j)\<rparr>)) x0 b c = Inr r \<and> \<not> res_success r"
    proof (intro allI impI)
      fix j :: nat assume j: "j < 5"
      then have "j < length ?ts" by simp
      with a(3) have "\<exists>r. minimize slv (obj (cfg\<lparr>tolerance := Some (?ts ! j * 100)\<rparr>)) x0 b c = Inr r \<and> \<not> res_success r"
        by blast
      then show "\<exists>r. minimize slv (obj (cfg\<lparr>tolerance := Some (?ps ! j)\<rparr>)) x0 b c = Inr r \<and> \<not> res_success r"
        by (rule conv[OF j])
    qed
    from a(4) have l: "minimize slv (obj (cfg\<lparr>tolerance := Some 100\<rparr>)) x0 b c = Inr result'"
      by simp
    have "(4::nat) < 5" by simp
    from all[rule_format, OF this]
    have "\<exists>r. minimize slv (obj (cfg\<lparr>tolerance := Some 100\<rparr>)) x0 b c = Inr r \<and> \<not> res_success r"
      by simp
    with l have nr: "\<not> res_success result'" by simp
    have "map (\<lambda>t. Minimize (t * 100)) ?ts = map Minimize ?ps"
      by simp
    with a(1) have cs: "calls' = calls @ map Minimize ?ps"
      by (simp only:)
    from cs a(2) all nr show ?thesis by blast
  qed
qed

lemma search_stages_cases:
  assumes "search_stages slv obj cfg x0 b c = Inr (calls, result, relaxed)"
  shows "\<exists>r0. minimize slv (obj cfg) x0 b c = Inr r0
    \<and> ( (res_success r0 \<and> calls = [Minimize (get_tolerance cfg)] \<and> result = r0 \<and> relaxed = None)
      \<or> (\<not> res_success r0 \<and> \<not> get_autoRelax cfg
           \<and> calls = [Minimize (get_tolerance cfg), DifferentialEvolution (get_tolerance cfg)]
           \<and> differential_evolution slv (obj cfg) b c = Inr result \<and> relaxed = None)
      \<or> (\<not> res_success r0 \<and> get_autoRelax cfg
           \<and> (\<exists>k<5. calls = Minimize (get_tolerance cfg) # map Minimize (take (Suc k) [40, 50, 60, 80, 100])
                 \<and> minimize slv (obj (cfg\<lparr>tolerance := Some ([40, 50, 60, 80, 100] ! k)\<rparr>)) x0 b c = Inr result
                 \<and> res_success result \<and> relaxed = Some ([40, 50, 60, 80, 100] ! k)
                 \<and> (\<forall>j<k. \<exists>r. minimize slv (obj (cfg\<lparr>tolerance := Some ([40, 50, 60, 80, 100] ! j)\<rparr>)) x0 b c = Inr r
                            \<and> \<not> res_success r)))
      \<or> (\<not> res_success r0 \<and> get_autoRelax cfg
           \<and> calls = Minimize (get_tolerance cfg) # map Minimize [40, 50, 60, 80, 100]
                       @ [DifferentialEvolution (get_tolerance cfg)]
           \<and> (\<forall>j<5. \<exists>r. minimize slv (obj (cfg\<lparr>tolerance := Some ([40, 50, 60, 80, 100] ! j)\<rparr>)) x0 b c = Inr r
                      \<and> \<not> res_success r)
           \<and> differential_evolution slv (obj cfg) b c = Inr result \<and> relaxed = None))"
proof -
  from assms obtain r0 where r0: "minimize slv (obj cfg) x0 b c = Inr r0"
    by (auto simp: search_stages_def split: sum.splits)
  show ?thesis
  proof (cases "\<not> res_success r0 \<and> get_autoRelax cfg")
    case False
    show ?thesis
    proof (cases "res_success r0")
      case True
      with assms r0 have "calls = [Minimize (get_tolerance cfg)] \<and> result = r0 \<and> relaxed = None"
        by (simp add: search_stages_def)
      with r0 True show ?thesis by blast
    next
      case nosucc: False
      with False have na: "\<not> get_autoRelax cfg" by simp
      from assms r0 nosucc na have
        "calls = [Minimize (get_tolerance cfg), DifferentialEvolution (get_tolerance cfg)]
         \<and> differential_evolution slv (obj cfg) b c = Inr result \<and> relaxed = None"
        by (auto simp: search_stages_def split: sum.splits)
      with r0 nosucc na show ?thesis by blast
    qed
  next
    case True
    with assms r0 obtain calls1 result1 relaxed1 where
      sw: "relax_sweep slv obj cfg x0 b c [0.4, 0.5, 0.6, 0.8, 1.0]
             ([Minimize (get_tolerance cfg)], r0, None) = Inr (calls1, result1, relaxed1)"
      by (auto simp: search_stages_def split: sum.splits)
    from assms r0 True sw have fin:
      "(if \<not> res_success result1
        then (case differential_evolution slv (obj cfg) b c of
                Inl e \<Rightarrow> Inl e
              | Inr result'' \<Rightarrow>
                  Inr (calls1 @ [DifferentialEvolution (get_tolerance cfg)], result'', relaxed1))
        else Inr (calls1, result1, relaxed1)) = Inr (calls, result, relaxed)"
      by (simp add: search_stages_def)
    from relax_sweep_percent[OF sw] show ?thesis
    proof (elim disjE exE conjE)
      fix k assume k: "k < 5"
        "calls1 = [Minimize (get_tolerance cfg)] @ map Minimize (take (Suc k) [40, 50, 60, 80, 100])"
        "minimize slv (obj (cfg\<lparr>tolerance := Some ([40, 50, 60, 80, 100] ! k)\<rparr>)) x0 b c = Inr result1"
        "res_success result1" "relaxed1 = Some ([40, 50, 60, 80, 100] ! k)"
        "\<forall>j<k. \<exists>r. minimize slv (obj (cfg\<lparr>tolerance := Some ([40, 50, 60, 80, 100] ! j)\<rparr>)) x0 b c = Inr r
                 \<and> \<not> res_success r"
      from fin k(4) have e: "calls = calls1" "result = result1" "relaxed = relaxed1" by simp_all
      have "\<exists>k<5. calls = Minimize (get_tolerance cfg) # map Minimize (take (Suc k) [40, 50, 60, 80, 100])
                 \<and> minimize slv (obj (cfg\<lparr>tolerance := Some ([40, 50, 60, 80, 100] ! k)\<rparr>)) x0 b c = Inr result
                 \<and> res_success result \<and> relaxed = Some ([40, 50, 60, 80, 100] ! k)
                 \<and> (\<forall>j<k. \<exists>r. minimize slv (obj (cfg\<lparr>tolerance := Some ([40, 50, 60, 80, 100] ! j)\<rparr>)) x0 b c = Inr r
                            \<and> \<not> res_success r)"
        using k e by (intro exI[of _ k]) simp
      with r0 True show ?thesis by blast
    next
      assume a: "calls1 = [Minimize (get_tolerance cfg)] @ map Minimize [40, 50, 60, 80, 100]"
        "relaxed1 = None"
        "\<forall>j<5. \<exists>r. minimize slv (obj (cfg\<lparr>tolerance := Some ([40, 50, 60, 80, 100] ! j)\<rparr>)) x0 b c = Inr r
                 \<and> \<not> res_success r"
        "\<not> res_success result1"
      from fin a(4) have
        "calls = calls1 @ [DifferentialEvolution (get_tolerance cfg)]
         \<and> differential_evolution slv (obj cfg) b c = Inr result \<and> relaxed = relaxed1"
        by (auto split: sum.splits)
      with a(1,2) have
        "calls = Minimize (get_tolerance cfg) # map Minimize [40, 50, 60, 80, 100]
                       @ [DifferentialEvolution (get_tolerance cfg)]
         \<and> differential_evolution slv (obj cfg) b c = Inr result \<and> relaxed = None"
        by simp
      with r0 True a(3) show ?thesis by blast
    qed
  qed
qed

lemma optimize_blend_Inr:
  assumes "optimize_blend slv materials cfg = Inr res"
  shows "\<exists>calls result relaxed bp rs.
      search_stages slv
        (\<lambda>c ratios. calculate_objective ratios (extract_material_parameters materials cfg)
           (fst (get_targets_and_limits (extract_material_parameters materials cfg) cfg))
           (snd (get_targets_and_limits (extract_material_parameters materials cfg) cfg)) c)
        cfg (replicate (length materials) (1 / real (length materials)))
        (replicate (length materials) (0, 1))
        (setup_constraints materials cfg (length materials)) = Inr (calls, result, relaxed)
    \<and> calculate_blend_parameters (normalize_ratios (res_x result))
          (extract_material_parameters materials cfg) = Inr bp
    \<and> calculate_residuals bp
          (fst (get_targets_and_limits (extract_material_parameters materials cfg) cfg))
          (snd (get_targets_and_limits (extract_material_parameters materials cfg) cfg)) cfg = Inr rs
    \<and> build_result (res_success result) (normalize_ratios (res_x result)) materials rs bp
          (case res_nit result of None \<Rightarrow> 0 | Some k \<Rightarrow> k) (res_success result) relaxed cfg = Inr res"
  using assms
  by (auto simp: optimize_blend_def Let_def case_prod_beta split: if_splits sum.splits)

lemma calculate_residuals_status:
  assumes "calculate_residuals bp targets limits cfg = Inr rs"
  shows "\<forall>r\<in>set rs. status r = residual_status (get_tolerance cfg) (residualPercent r)"
proof -
  from assms obtain us where us: "residuals_loop targets limits (get_tolerance cfg) bp [] = Inr us"
    and rs: "rs = sort_desc (\<lambda>r. \<bar>residualPercent r\<bar>) us"
    by (auto simp: calculate_residuals_def split: sum.splits)
  from residuals_loop_status[OF us] have
    "\<forall>r\<in>set us. status r = residual_status (get_tolerance cfg) (residualPercent r)"
    by simp
  then show ?thesis
    by (simp only: rs set_sort_desc)
qed

text \<open>
  The runs of \<^verbatim>\<open>optimize_blend\<close> that return a result. Their solver calls are one of four
  runs. (1) The first local solve succeeded: nothing else ran. (2) It failed and
  \<^verbatim>\<open>autoRelax\<close> is false: the global solve ran next, with the objective of the original
  configuration. (3) It failed and \<^verbatim>\<open>autoRelax\<close> is true: the local solve was repeated from
  the same starting point, bounds and constraints with the tolerance of the objective's
  configuration set to 40, 50, 60, 80, 100 in this order, every attempt before the last one
  made failed, the last one made succeeded, its tolerance is the recorded relaxed tolerance,
  and the global solve did not run. (4) As (3), but all five attempts failed: the global
  solve ran and no relaxed tolerance is recorded. The recorded relaxed tolerance is
  \<^verbatim>\<open>optimizationDetails.relaxedTolerance\<close> and has its warning, and the residual statuses
  use the tolerance of the original configuration.
\<close>

lemma returning_run_stages:
  fixes slv :: solvers and materials :: "material list" and cfg :: config
  defines "obj \<equiv> (\<lambda>c ratios. calculate_objective ratios
                     (extract_material_parameters materials cfg)
                     (fst (get_targets_and_limits (extract_material_parameters materials cfg) cfg))
                     (snd (get_targets_and_limits (extract_material_parameters materials cfg) cfg)) c)"
    and "x0 \<equiv> replicate (length materials) (1 / real (length materials))"
    and "bounds \<equiv> replicate (length materials) (0, 1)"
    and "cons \<equiv> setup_constraints materials cfg (length materials)"
  assumes ok: "optimize_blend slv materials cfg = Inr res"
  shows "\<exists>calls result relaxed r0.
      search_stages slv obj cfg x0 bounds cons = Inr (calls, result, relaxed)
    \<and> minimize slv (obj cfg) x0 bounds cons = Inr r0
    \<and> ( (res_success r0 \<and> calls = [Minimize (get_tolerance cfg)] \<and> result = r0 \<and> relaxed = None)
      \<or> (\<not> res_success r0 \<and> \<not> get_autoRelax cfg
           \<and> calls = [Minimize (get_tolerance cfg), DifferentialEvolution (get_tolerance cfg)]
           \<and> differential_evolution slv (obj cfg) bounds cons = Inr result \<and> relaxed = None)
      \<or> (\<not> res_success r0 \<and> get_autoRelax cfg
           \<and> (\<exists>k<5. calls = Minimize (get_tolerance cfg) # map Minimize (take (Suc k) [40, 50, 60, 80, 100])
                 \<and> minimize slv (obj (cfg\<lparr>tolerance := Some ([40, 50, 60, 80, 100] ! k)\<rparr>)) x0 bounds cons
                     = Inr result
                 \<and> res_success result \<and> relaxed = Some ([40, 50, 60, 80, 100] ! k)
                 \<and> (\<forall>j<k. \<exists>r. minimize slv (obj (cfg\<lparr>tolerance := Some ([40, 50, 60, 80, 100] ! j)\<rparr>))
                                   x0 bounds cons = Inr r
                            \<and> \<not> res_success r)))
      \<or> (\<not> res_success r0 \<and> get_autoRelax cfg
           \<and> calls = Minimize (get_tolerance cfg) # map Minimize [40, 50, 60, 80, 100]
                       @ [DifferentialEvolution (get_tolerance cfg)]
           \<and> (\<forall>j<5. \<exists>r. minimize slv (obj (cfg\<lparr>tolerance := Some ([40, 50, 60, 80, 100] ! j)\<rparr>))
                             x0 bounds cons = Inr r
                      \<and> \<not> res_success r)
           \<and> differential_evolution slv (obj cfg) bounds cons = Inr result \<and> relaxed = None))
    \<and> success res = res_success result
    \<and> relaxedTolerance (optimizationDetails res) = relaxed
    \<and> (\<forall>t. relaxed = Some t \<longrightarrow> RelaxedWarning t \<in> set (warnings res))
    \<and> (\<forall>r\<in>set (residuals res).
          status r = (if residualPercent r \<le> get_tolerance cfg then compliant
                      else if residualPercent r \<le> get_tolerance cfg * 1.5 then marginal
                      else exceeding))"
proof -
  from optimize_blend_Inr[OF ok] obtain calls result relaxed bp rs where
    st: "search_stages slv obj cfg x0 bounds cons = Inr (calls, result, relaxed)"
    and rs: "calculate_residuals bp
          (fst (get_targets_and_limits (extract_material_parameters materials cfg) cfg))
          (snd (get_targets_and_limits (extract_material_parameters materials cfg) cfg)) cfg = Inr rs"
    and br: "build_result (res_success result) (normalize_ratios (res_x result)) materials rs bp
          (case res_nit result of None \<Rightarrow> 0 | Some k \<Rightarrow> k) (res_success result) relaxed cfg = Inr res"
    unfolding obj_def x0_def bounds_def cons_def by blast
  have "\<exists>r0. minimize slv (obj cfg) x0 bounds cons = Inr r0
    \<and> ( (res_success r0 \<and> calls = [Minimize (get_tolerance cfg)] \<and> result = r0 \<and> relaxed = None)
      \<or> (\<not> res_success r0 \<and> \<not> get_autoRelax cfg
           \<and> calls = [Minimize (get_tolerance cfg), DifferentialEvolution (get_tolerance cfg)]
           \<and> differential_evolution slv (obj cfg) bounds cons = Inr result \<and> relaxed = None)
      \<or> (\<not> res_success r0 \<and> get_autoRelax cfg
           \<and> (\<exists>k<5. calls = Minimize (get_tolerance cfg) # map Minimize (take (Suc k) [40, 50, 60, 80, 100])
                 \<and> minimize slv (obj (cfg\<lparr>tolerance := Some ([40, 50, 60, 80, 100] ! k)\<rparr>)) x0 bounds cons
                     = Inr result
                 \<and> res_success result \<and> relaxed = Some ([40, 50, 60, 80, 100] ! k)
                 \<and> (\<forall>j<k. \<exists>r. minimize slv (obj (cfg\<lparr>tolerance := Some ([40, 50, 60, 80, 100] ! j)\<rparr>))
                                   x0 bounds cons = Inr r
                            \<and> \<not> res_success r)))
      \<or> (\<not> res_success r0 \<and> get_autoRelax cfg
           \<and> calls = Minimize (get_tolerance cfg) # map Minimize [40, 50, 60, 80, 100]
                       @ [DifferentialEvolution (get_tolerance cfg)]
           \<and> (\<forall>j<5. \<exists>r. minimize slv (obj (cfg\<lparr>tolerance := Some ([40, 50, 60, 80, 100] ! j)\<rparr>))
                             x0 bounds cons = Inr r
                      \<and> \<not> res_success r)
           \<and> differential_evolution slv (obj cfg) bounds cons = Inr result \<and> relaxed = None))"
    (is "\<exists>r0. ?M r0 \<and> ?D r0")
    by (rule search_stages_cases[OF st])
  then obtain r0 where m: "?M r0" and d: "?D r0"
    by (elim exE conjE)
  have pos: "t \<noteq> 0" if t: "relaxed = Some t" for t
  proof -
    from d t have "\<exists>k<5. relaxed = Some ([40, 50, 60, 80, 100 :: real] ! k)"
      by (elim disjE conjE) (simp_all, blast)
    then obtain k where k: "k < 5" "relaxed = Some ([40, 50, 60, 80, 100 :: real] ! k)"
      by (elim exE conjE)
    from k(1) have "[40, 50, 60, 80, 100 :: real] ! k \<in> set [40, 50, 60, 80, 100]"
      by (intro nth_mem) simp
    with k(2) t have "t \<in> set [40, 50, 60, 80, 100 :: real]"
      by simp
    then show ?thesis by auto
  qed
  have wo: "warnings res = warnings_of (exceeding_count (compliance_of rs))
               (marginal_count (compliance_of rs)) relaxed (missing_params_of cfg bp)"
    by (rule build_result_fields(5)[OF br])
  have w: "\<forall>t. relaxed = Some t \<longrightarrow> RelaxedWarning t \<in> set (warnings res)"
  proof (intro allI impI)
    fix t assume t: "relaxed = Some t"
    with pos have "t \<noteq> 0" by blast
    with t show "RelaxedWarning t \<in> set (warnings res)"
      by (simp add: wo warnings_of_def)
  qed
  have "residuals res = rs"
    by (rule build_result_fields(2)[OF br])
  with calculate_residuals_status[OF rs]
  have "\<forall>r\<in>set (residuals res). status r = residual_status (get_tolerance cfg) (residualPercent r)"
    by (simp only:)
  then have s: "\<forall>r\<in>set (residuals res).
          status r = (if residualPercent r \<le> get_tolerance cfg then compliant
                      else if residualPercent r \<le> get_tolerance cfg * 1.5 then marginal
                      else exceeding)"
    by (simp only: residual_status_def)
  have f1: "success res = res_success result"
    by (rule build_result_fields(1)[OF br])
  have f6: "relaxedTolerance (optimizationDetails res) = relaxed"
    by (rule build_result_fields(6)[OF br])
  show ?thesis
    by (intro exI conjI) (rule st m d f1 f6 w s)+
qed

lemma relax_sweep_all_fail:
  assumes "\<forall>c'. \<exists>r. minimize slv (obj c') x0 b c = Inr r \<and> \<not> res_success r"
    and "\<not> res_success result"
  shows "\<exists>calls' result'. relax_sweep slv obj cfg x0 b c ts (calls, result, relaxed)
            = Inr (calls', result', relaxed) \<and> \<not> res_success result'"
  using assms(2)
proof (induction ts arbitrary: calls result)
  case Nil
  then show ?case by simp
next
  case (Cons t ts)
  from assms(1) obtain r where r: "minimize slv (obj (cfg\<lparr>tolerance := Some (t * 100)\<rparr>)) x0 b c = Inr r"
    "\<not> res_success r"
    by blast
  from Cons.IH[OF r(2), of "calls @ [Minimize (t * 100)]"] r show ?case
    by (simp add: Let_def)
qed

lemma search_stages_all_fail:
  assumes "\<forall>c'. \<exists>r. minimize slv (obj c') x0 b c = Inr r \<and> \<not> res_success r"
    and "differential_evolution slv (obj cfg) b c = Inl e"
  shows "search_stages slv obj cfg x0 b c = Inl e"
proof -
  from assms(1) obtain r0 where r0: "minimize slv (obj cfg) x0 b c = Inr r0" "\<not> res_success r0"
    by blast
  show ?thesis
  proof (cases "get_autoRelax cfg")
    case True
    from relax_sweep_all_fail[OF assms(1) r0(2), of cfg "[0.4, 0.5, 0.6, 0.8, 1.0]"
        "[Minimize (get_tolerance cfg)]" None]
    obtain calls' result' where
      "relax_sweep slv obj cfg x0 b c [0.4, 0.5, 0.6, 0.8, 1.0]
         ([Minimize (get_tolerance cfg)], r0, None) = Inr (calls', result', None)"
      "\<not> res_success result'"
      by blast
    with r0 True assms(2) show ?thesis
      by (simp add: search_stages_def)
  next
    case False
    with r0 assms(2) show ?thesis
      by (simp add: search_stages_def)
  qed
qed

lemma fold_keeps_nonempty:
  assumes "\<And>c acc. acc \<noteq> [] \<Longrightarrow> g c acc \<noteq> []"
  shows "acc \<noteq> [] \<Longrightarrow> fold g cs acc \<noteq> []"
  by (induction cs arbitrary: acc) (simp_all add: assms)

lemma setup_constraints_nonempty: "setup_constraints materials cfg n \<noteq> []"
  unfolding setup_constraints_def
  by (rule fold_keeps_nonempty) (auto simp: Let_def split: option.splits)

text \<open>
  Claim C4 says that the global solve runs when no earlier stage reported success and that
  its result is then taken as final whatever its success flag. The program hands
  \<^verbatim>\<open>differential_evolution\<close> the constraint dictionaries that \<^verbatim>\<open>setup_constraints\<close> builds for
  the local solver, and the list always holds the equality constraint. So for every pair of
  routines of which the local one reports failure on each solve of the program's objective
  and the global one rejects a non-empty list of constraint dictionaries with a
  \<^verbatim>\<open>ValueError\<close>, the search and with it \<^verbatim>\<open>optimize_blend\<close> raise that error: no result is
  taken. The witness is a request whose material constraints cannot be met.
\<close>

theorem global_solve_raises:
  fixes slv :: solvers and materials :: "material list" and cfg :: config
  defines "obj \<equiv> (\<lambda>c ratios. calculate_objective ratios
                     (extract_material_parameters materials cfg)
                     (fst (get_targets_and_limits (extract_material_parameters materials cfg) cfg))
                     (snd (get_targets_and_limits (extract_material_parameters materials cfg) cfg)) c)"
    and "x0 \<equiv> replicate (length materials) (1 / real (length materials))"
    and "bounds \<equiv> replicate (length materials) (0, 1)"
    and "cons \<equiv> setup_constraints materials cfg (length materials)"
  assumes "2 \<le> length materials"
    and "\<forall>c'. \<exists>r. minimize slv (obj c') x0 bounds cons = Inr r \<and> \<not> res_success r"
    and "\<forall>f b cs. cs \<noteq> [] \<longrightarrow> differential_evolution slv f b cs = Inl ValueError"
  shows "search_stages slv obj cfg x0 bounds cons = Inl ValueError
       \<and> optimize_blend slv materials cfg = Inl ValueError"
proof -
  have "cons \<noteq> []"
    unfolding cons_def by (rule setup_constraints_nonempty)
  with assms(7) have "differential_evolution slv (obj cfg) bounds cons = Inl ValueError"
    by blast
  with assms(6) have st: "search_stages slv obj cfg x0 bounds cons = Inl ValueError"
    by (rule search_stages_all_fail)
  from assms(5) have "\<not> length materials < 2" by simp
  with st have "optimize_blend slv materials cfg = Inl ValueError"
    unfolding obj_def x0_def bounds_def cons_def
    by (simp add: optimize_blend_def Let_def case_prod_beta)
  with st show ?thesis ..
qed

lemma infeasible_params:
  "extract_material_parameters [material_a, material_b] infeasible_config
     = [(''pH'', [Some 6, Some 9])]"
  by (simp add: extract_material_parameters_def material_a_def material_b_def
        infeasible_config_def dict_get_def)

lemma infeasible_targets_limits:
  "get_targets_and_limits [(''pH'', [Some 6, Some 9])] infeasible_config
     = ([(''pH'', Some 7)], [(''pH'', [''lower'' \<mapsto> Some 5.5, ''upper'' \<mapsto> Some 8.5])])"
  by (simp add: get_targets_and_limits_def infeasible_config_def resolve_limits_def
        resolve_target_def dict_get_def bs3882_limits_def zero_seeking_def Let_def)

lemma infeasible_objective:
  "\<exists>v. calculate_objective [1/2, 1/2] [(''pH'', [Some 6, Some 9])] [(''pH'', Some 7)]
          [(''pH'', [''lower'' \<mapsto> Some 5.5, ''upper'' \<mapsto> Some 8.5])] c = Inr v"
  by (simp add: calculate_objective_def calculate_blend_parameters_def blend_value_def
        objective_residual_def dict_get_def Let_def)

theorem global_solve_raises_witness:
  "optimize_blend probe_solvers [material_a, material_b] infeasible_config = Inl ValueError"
proof -
  have len: "2 \<le> length [material_a, material_b]"
    by simp
  have "\<exists>r. minimize probe_solvers
               (\<lambda>ratios. calculate_objective ratios [(''pH'', [Some 6, Some 9])] [(''pH'', Some 7)]
                   [(''pH'', [''lower'' \<mapsto> Some 5.5, ''upper'' \<mapsto> Some 8.5])] c')
               [1/2, 1/2] b cs = Inr r \<and> \<not> res_success r" for c' b cs
    using infeasible_objective[of c'] by (auto simp: probe_solvers_def)
  then have loc: "\<forall>c'. \<exists>r. minimize probe_solvers
       (\<lambda>ratios. calculate_objective ratios
           (extract_material_parameters [material_a, material_b] infeasible_config)
           (fst (get_targets_and_limits
                   (extract_material_parameters [material_a, material_b] infeasible_config)
                   infeasible_config))
           (snd (get_targets_and_limits
                   (extract_material_parameters [material_a, material_b] infeasible_config)
                   infeasible_config)) c')
       (replicate (length [material_a, material_b]) (1 / real (length [material_a, material_b])))
       (replicate (length [material_a, material_b]) (0, 1))
       (setup_constraints [material_a, material_b] infeasible_config
          (length [material_a, material_b])) = Inr r \<and> \<not> res_success r"
    by (simp add: infeasible_params infeasible_targets_limits numeral_2_eq_2)
  have glob: "\<forall>f b cs. cs \<noteq> [] \<longrightarrow> differential_evolution probe_solvers f b cs = Inl ValueError"
    by (simp add: probe_solvers_def split: list.splits)
  from global_solve_raises[OF len loc glob] show ?thesis ..
qed

subsection \<open>Input validation and raised errors\<close>

lemma optimize_blend_too_few:
  "length materials < 2 \<Longrightarrow> optimize_blend slv materials cfg = Inl ValueError"
  by (simp add: optimize_blend_def)

lemma arsenic_params:
  "extract_material_parameters arsenic_materials arsenic_config = [(''Arsenic'', [Some 5, Some 10])]"
  by (simp add: extract_material_parameters_def arsenic_materials_def arsenic_config_def dict_get_def)

lemma arsenic_targets_limits:
  "get_targets_and_limits [(''Arsenic'', [Some 5, Some 10])] arsenic_config
     = ([(''Arsenic'', None)], [(''Arsenic'', [''lower'' \<mapsto> None, ''upper'' \<mapsto> Some 20])])"
  by (simp add: get_targets_and_limits_def arsenic_config_def resolve_limits_def resolve_target_def
        dict_get_def bs3882_limits_def zero_seeking_def Let_def)

lemma arsenic_blend:
  "calculate_blend_parameters [1/2, 1/2] [(''Arsenic'', [Some 5, Some 10])] = Inr [(''Arsenic'', 15/2)]"
  by (simp add: calculate_blend_parameters_def blend_value_def)

lemma arsenic_objective:
  "calculate_objective [1/2, 1/2] [(''Arsenic'', [Some 5, Some 10])] [(''Arsenic'', None)]
     [(''Arsenic'', [''lower'' \<mapsto> None, ''upper'' \<mapsto> Some 20])] c = Inl TypeError"
  by (simp add: calculate_objective_def arsenic_blend objective_residual_def dict_get_def)

lemma arsenic_residuals:
  "calculate_residuals [(''Arsenic'', 15/2)] [(''Arsenic'', None)]
     [(''Arsenic'', [''lower'' \<mapsto> None, ''upper'' \<mapsto> Some 20])] arsenic_config = Inl TypeError"
  by (simp add: calculate_residuals_def residual_of_def dict_get_def Let_def)

text \<open>
  Claim C2 says that \<^verbatim>\<open>optimize_blend\<close> raises exactly when fewer than 2 materials are
  supplied. With fewer than 2 materials it does raise. With the two Arsenic materials it
  raises as well: the target of Arsenic is \<^verbatim>\<open>None\<close> (see C1), so the objective raises a
  \<^verbatim>\<open>TypeError\<close> at the starting point, and even with solver routines that never call the
  objective \<^verbatim>\<open>calculate_residuals\<close> raises it.
\<close>

theorem optimize_blend_raises_on_arsenic:
  "optimize_blend probe_solvers arsenic_materials arsenic_config = Inl TypeError
   \<and> optimize_blend blind_solvers arsenic_materials arsenic_config = Inl TypeError"
proof -
  have len: "length arsenic_materials = 2"
    by (simp add: arsenic_materials_def)
  have x0: "replicate 2 (1/2 :: real) = [1/2, 1/2]"
    by (simp add: numeral_2_eq_2)
  have n: "normalize_ratios [1/2, 1/2] = [1/2, 1/2]"
    by (simp add: normalize_ratios_def)
  have a: "optimize_blend probe_solvers arsenic_materials arsenic_config = Inl TypeError"
    by (simp add: optimize_blend_def len x0 arsenic_params arsenic_targets_limits
          search_stages_def probe_solvers_def arsenic_objective Let_def)
  have b: "optimize_blend blind_solvers arsenic_materials arsenic_config = Inl TypeError"
    by (simp add: optimize_blend_def len x0 arsenic_params arsenic_targets_limits
          search_stages_def blind_solvers_def n arsenic_blend arsenic_residuals Let_def)
  from a b show ?thesis ..
qed

end
